(* ===== verification/Prelude.thy ===== *)
theory Prelude
  imports Complex_Main
begin

text \<open>
  Shared vocabulary of the development: the collections of simplification rules that
  the component theories extend, and the generic facts about lists that the JavaScript
  array operations of the controllers reduce to (\<open>Array.prototype.find\<close>,
  \<open>findIndex\<close>, \<open>splice\<close>, in-place element update, \<open>push\<close>).
\<close>

named_theorems express_simps "symbolic execution of an Express route stack"
named_theorems js_simps "evaluation of JavaScript value operations"

section \<open>First matching position of a list\<close>

text \<open>
  \<open>Array.prototype.find\<close> returns the first element satisfying the predicate; the
  controllers keep that element (an object reference) in \<open>response.locals\<close> and later
  mutate it in place. The model keeps the element's position instead, so that the
  mutation is an update of the store's list at that position.
\<close>

fun first_index :: "('a \<Rightarrow> bool) \<Rightarrow> 'a list \<Rightarrow> nat option" where
  "first_index P [] = None"
| "first_index P (x # xs) = (if P x then Some 0 else map_option Suc (first_index P xs))"

text \<open>\<open>Array.prototype.findIndex\<close>: the first position, or \<open>-1\<close>.\<close>

definition js_find_index :: "('a \<Rightarrow> bool) \<Rightarrow> 'a list \<Rightarrow> int" where
  "js_find_index P xs = (case first_index P xs of None \<Rightarrow> -1 | Some i \<Rightarrow> int i)"

text \<open>
  \<open>Array.prototype.splice(start, 1)\<close>: a negative start counts from the end (and is
  clamped at 0); a start at or beyond the end removes nothing.
\<close>

definition js_splice_one :: "int \<Rightarrow> 'a list \<Rightarrow> 'a list" where
  "js_splice_one start xs =
     (let n = int (length xs);
          k = (if start < 0 then max (n + start) 0 else min start n)
      in take (nat k) xs @ drop (Suc (nat k)) xs)"

section \<open>Validation pipelines\<close>

text \<open>
  The specification's reading of a middleware chain: an ordered list of independent
  checks, each giving an error or nothing, that stops at the first error.
\<close>

fun first_failure :: "'e option list \<Rightarrow> 'e option" where
  "first_failure [] = None"
| "first_failure (Some e # cs) = Some e"
| "first_failure (None # cs) = first_failure cs"

section \<open>Lemmas on positions\<close>

lemma first_index_SomeD [dest]:
  "first_index P xs = Some i \<Longrightarrow> i < length xs \<and> P (xs ! i) \<and> (\<forall>j < i. \<not> P (xs ! j))"
proof (induction xs arbitrary: i)
  case Nil
  then show ?case by simp
next
  case (Cons x xs)
  then show ?case
    by (auto split: if_splits simp: nth_Cons' less_Suc_eq_0_disj)
qed

lemma first_index_None_iff:
  "first_index P xs = None \<longleftrightarrow> (\<forall>x \<in> set xs. \<not> P x)"
  by (induction xs) auto

lemma first_index_Some_iff:
  "first_index P xs = Some i \<longleftrightarrow> i < length xs \<and> P (xs ! i) \<and> (\<forall>j < i. \<not> P (xs ! j))"
proof
  assume "first_index P xs = Some i"
  then show "i < length xs \<and> P (xs ! i) \<and> (\<forall>j < i. \<not> P (xs ! j))" by blast
next
  assume h: "i < length xs \<and> P (xs ! i) \<and> (\<forall>j < i. \<not> P (xs ! j))"
  then show "first_index P xs = Some i"
  proof (induction xs arbitrary: i)
    case Nil
    then show ?case by simp
  next
    case (Cons x xs)
    show ?case
    proof (cases i)
      case 0
      with Cons.prems show ?thesis by simp
    next
      case (Suc k)
      with Cons.prems have "\<not> P x" by auto
      moreover from Suc Cons.prems have "first_index P xs = Some k"
        by (intro Cons.IH) auto
      ultimately show ?thesis using Suc by simp
    qed
  qed
qed

lemma find_first_index:
  "List.find P xs = map_option (nth xs) (first_index P xs)"
  by (induction xs) (simp_all add: option.map_comp comp_def)

lemma first_index_distinct:
  assumes "distinct (map f xs)" and "i < length xs" and "f (xs ! i) = k"
  shows "first_index (\<lambda>x. f x = k) xs = Some i"
proof -
  have "\<forall>j < i. f (xs ! j) \<noteq> k"
  proof (intro allI impI)
    fix j assume "j < i"
    with assms show "f (xs ! j) \<noteq> k"
      using nth_eq_iff_index_eq [of "map f xs" j i] by auto
  qed
  with assms show ?thesis by (simp add: first_index_Some_iff)
qed

lemma js_find_index_first_index [simp]:
  "first_index P xs = Some i \<Longrightarrow> js_find_index P xs = int i"
  by (simp add: js_find_index_def)

lemma js_splice_one_nat [simp]:
  "js_splice_one (int i) xs = take i xs @ drop (Suc i) xs"
  by (simp add: js_splice_one_def Let_def min_def nat_le_iff)

lemma js_splice_one_neg1 [simp]:
  "js_splice_one (-1) xs = butlast xs"
  by (cases xs rule: rev_cases) (simp_all add: js_splice_one_def Let_def)

lemma first_failure_None_iff [simp]:
  "first_failure cs = None \<longleftrightarrow> (\<forall>c \<in> set cs. c = None)"
  by (induction cs rule: first_failure.induct) auto

lemma first_failure_SomeD: "first_failure cs = Some e \<Longrightarrow> Some e \<in> set cs"
  by (induction cs rule: first_failure.induct) auto

lemma first_index_update_same:
  assumes "first_index (\<lambda>x. f x = k) xs = Some i" and "f y = f (xs ! i)"
  shows "first_index (\<lambda>x. f x = k) (xs[i := y]) = Some i"
  using assms by (auto simp: first_index_Some_iff nth_list_update)

section \<open>Lists of records with distinct keys\<close>

lemma distinct_map_update [simp]:
  assumes "i < length xs" and "f y = f (xs ! i)"
  shows "distinct (map f (xs[i := y])) = distinct (map f xs)"
proof -
  have "map f (xs[i := y]) = map f xs"
    using assms by (simp add: map_update list_update_same_conv)
  then show ?thesis by simp
qed

lemma distinct_map_remove:
  assumes "distinct (map f xs)"
  shows "distinct (map f (take i xs @ drop (Suc i) xs))"
proof -
  have "map f (take i xs @ drop (Suc i) xs) = take i (map f xs) @ drop (Suc i) (map f xs)"
    by (simp add: take_map drop_map)
  moreover have "distinct (take i (map f xs) @ drop (Suc i) (map f xs))"
  proof -
    have "set (drop (Suc i) (map f xs)) \<subseteq> set (drop i (map f xs))"
      by (simp add: set_drop_subset_set_drop)
    moreover have "distinct (take i (map f xs) @ drop i (map f xs))"
      using assms by simp
    ultimately show ?thesis
      using distinct_drop [of "map f xs" "Suc i"] assms
      by (auto simp del: append_take_drop_id simp: distinct_append)
  qed
  ultimately show ?thesis by simp
qed

lemma distinct_map_remove_notin:
  assumes "distinct (map f xs)" and "i < length xs"
  shows "f (xs ! i) \<notin> f ` set (take i xs @ drop (Suc i) xs)"
proof -
  have "xs = take i xs @ xs ! i # drop (Suc i) xs"
    using assms(2) by (rule id_take_nth_drop)
  then have "distinct (map f (take i xs) @ f (xs ! i) # map f (drop (Suc i) xs))"
    using assms(1) by (metis list.simps(9) map_append)
  then show ?thesis by auto
qed

lemma set_remove_subset:
  "set (take i xs @ drop (Suc i) xs) \<subseteq> set xs"
  by (auto dest: in_set_takeD in_set_dropD)

end
