(* ===== verification/JsValue.thy ===== *)
theory JsValue
  imports Prelude
begin

text \<open>
  The JavaScript values the controllers read from a request body (parsed by
  \<open>express.json()\<close>) and write into the in-memory arrays, with the few operations of
  the language the controllers use: truthiness (\<open>!x\<close>), property access and object
  destructuring (which throws a \<open>TypeError\<close> on \<open>undefined\<close> and \<open>null\<close>),
  \<open>Number.isInteger\<close>, strict equality with a string, and the serialisation of an object
  literal by \<open>JSON.stringify\<close> (which drops properties whose value is \<open>undefined\<close>).
  Error objects passed to \<open>next(...)\<close> are a datatype of their own.
\<close>

section \<open>Values\<close>

text \<open>
  A JSON value. Numbers are the exact rationals of their decimal notation (a JSON number
  literal is a finite decimal; \<open>NaN\<close> and infinities cannot be parsed).
  An object is its list of properties in source order.
\<close>

datatype jval =
    JNull
  | JBool bool
  | JNum rat
  | JStr string
  | JArr "jval list"
  | JObj "(string \<times> jval) list"

text \<open>A JavaScript value as a variable holds it: \<open>None\<close> is \<open>undefined\<close>.\<close>

type_synonym jsval = "jval option"

text \<open>\<open>!!v\<close>: \<open>undefined\<close>, \<open>null\<close>, \<open>false\<close>, \<open>0\<close> and \<open>""\<close> are falsy.\<close>

fun truthy :: "jsval \<Rightarrow> bool" where
  "truthy None = False"
| "truthy (Some JNull) = False"
| "truthy (Some (JBool b)) = b"
| "truthy (Some (JNum q)) = (q \<noteq> 0)"
| "truthy (Some (JStr s)) = (s \<noteq> [])"
| "truthy (Some (JArr xs)) = True"
| "truthy (Some (JObj kvs)) = True"

text \<open>
  \<open>v.k\<close> on a value that is not \<open>undefined\<close> or \<open>null\<close>. \<open>JSON.parse\<close> keeps the
  last of duplicated keys, hence the reversed association list. The keys the controllers
  read (\<open>data\<close>, \<open>id\<close>, \<open>name\<close>, \<open>quantity\<close>, ...) are neither \<open>length\<close> nor
  array indices, so on strings, numbers, booleans and arrays they are \<open>undefined\<close>.
\<close>

fun get_prop :: "jval \<Rightarrow> string \<Rightarrow> jsval" where
  "get_prop (JObj kvs) k = map_of (rev kvs) k"
| "get_prop v k = None"

section \<open>Errors\<close>

text \<open>
  A message built by a template literal: literal text and interpolated values
  (\<open>`Dish id does not match route id. Dish: ${id}, Route: ${dishId}`\<close>).
\<close>

datatype msg_part = Lit string | Val jsval

text \<open>
  What a middleware hands to \<open>next(...)\<close>: an object \<open>{status, message}\<close>, or the
  \<open>TypeError\<close> the runtime throws (Express catches a synchronous throw of a handler and
  passes it to \<open>next\<close>).
\<close>

datatype js_error =
    HttpError nat "msg_part list"
  | TypeError string

text \<open>
  Destructuring \<open>const { f } = v\<close> throws when \<open>v\<close> is \<open>undefined\<close> or \<open>null\<close>;
  other primitives are boxed and simply lack the property.
\<close>

fun destructure :: "jsval \<Rightarrow> js_error + jval" where
  "destructure None = Inl (TypeError ''Cannot destructure property of undefined'')"
| "destructure (Some JNull) = Inl (TypeError ''Cannot destructure property of null'')"
| "destructure (Some v) = Inr v"

text \<open>\<open>const { data: { ... } } = request.body\<close>: the object the fields are read from.\<close>

definition body_data :: "jval \<Rightarrow> js_error + jval" where
  "body_data body = destructure (get_prop body ''data'')"

text \<open>\<open>v.k\<close> where \<open>v\<close> may be \<open>undefined\<close> or \<open>null\<close>: those throw.\<close>

fun js_member :: "jsval \<Rightarrow> string \<Rightarrow> js_error + jsval" where
  "js_member None k = Inl (TypeError (''Cannot read properties of undefined (reading '' @ k @ '')''))"
| "js_member (Some JNull) k = Inl (TypeError (''Cannot read properties of null (reading '' @ k @ '')''))"
| "js_member (Some v) k = Inr (get_prop v k)"

text \<open>The specification's "present and non-empty" check of a field, failing with a 400.\<close>

definition require_truthy :: "jval \<Rightarrow> string \<Rightarrow> string \<Rightarrow> js_error option" where
  "require_truthy d k msg = (if truthy (get_prop d k) then None else Some (HttpError 400 [Lit msg]))"

section \<open>Numbers\<close>

definition is_integral :: "rat \<Rightarrow> bool" where
  "is_integral q \<longleftrightarrow> of_int \<lfloor>q\<rfloor> = q"

text \<open>\<open>Number.isInteger(v)\<close>: false for every value that is not a number.\<close>

fun Number_isInteger :: "jsval \<Rightarrow> bool" where
  "Number_isInteger (Some (JNum q)) = is_integral q"
| "Number_isInteger v = False"

text \<open>
  \<open>v <= 0 || !Number.isInteger(v)\<close> (the price check) and
  \<open>!v || !(v > 0) || !Number.isInteger(v)\<close> (the quantity check). On a value that is not a
  number \<open>Number.isInteger\<close> is false, so the whole disjunction is true whatever the
  coercing comparison gives; only on numbers do the comparisons decide.
\<close>

fun le_zero_or_not_integer :: "jsval \<Rightarrow> bool" where
  "le_zero_or_not_integer (Some (JNum q)) = (q \<le> 0 \<or> \<not> is_integral q)"
| "le_zero_or_not_integer v = True"

fun falsy_or_not_positive_integer :: "jsval \<Rightarrow> bool" where
  "falsy_or_not_positive_integer (Some (JNum q)) = (\<not> truthy (Some (JNum q)) \<or> \<not> 0 < q \<or> \<not> is_integral q)"
| "falsy_or_not_positive_integer v = True"

text \<open>The values both checks accept: positive integral numbers.\<close>

fun positive_integer :: "jsval \<Rightarrow> bool" where
  "positive_integer (Some (JNum q)) = (0 < q \<and> is_integral q)"
| "positive_integer v = False"

section \<open>Serialisation\<close>

text \<open>
  \<open>JSON.stringify\<close> of an object literal \<open>{k1: v1, ...}\<close>: properties holding
  \<open>undefined\<close> are left out, the others keep their order.
\<close>

fun js_object :: "(string \<times> jsval) list \<Rightarrow> jval" where
  "js_object kvs = JObj (List.map_filter (\<lambda>(k, v). map_option (Pair k) v) kvs)"

section \<open>Lemmas\<close>

lemma is_integral_of_int [simp, js_simps]: "is_integral (of_int n)"
  by (simp add: is_integral_def)

lemma is_integral_numeral [simp, js_simps]: "is_integral (numeral n)"
  using is_integral_of_int [of "numeral n"] by simp

lemma is_integral_zero [simp, js_simps]: "is_integral 0"
  by (simp add: is_integral_def)

lemma le_zero_or_not_integer_iff [js_simps]:
  "le_zero_or_not_integer v \<longleftrightarrow> \<not> positive_integer v"
  by (cases v rule: positive_integer.cases) auto

lemma falsy_or_not_positive_integer_iff [js_simps]:
  "falsy_or_not_positive_integer v \<longleftrightarrow> \<not> positive_integer v"
  by (cases v rule: positive_integer.cases) auto

lemma positive_integer_truthy [js_simps]: "positive_integer v \<Longrightarrow> truthy v"
  by (cases v rule: positive_integer.cases) auto

lemma destructure_Inr_iff [js_simps]:
  "destructure v = Inr d \<longleftrightarrow> v = Some d \<and> d \<noteq> JNull"
  by (cases v rule: destructure.cases) auto

lemma get_prop_JObj_Cons [simp, js_simps]:
  "get_prop (JObj ((k', v) # kvs)) k =
     (case get_prop (JObj kvs) k of None \<Rightarrow> (if k = k' then Some v else None) | Some w \<Rightarrow> Some w)"
  by (simp add: map_of_append map_add_def split: option.splits)


end
