(* ===== verification/Express.thy ===== *)
theory Express
  imports JsValue
begin

text \<open>
  The part of Express the controllers run inside: a route (\<open>router.route(path)\<close>) keeps
  a stack of layers, one per handler given to \<open>.get\<close>, \<open>.put\<close>, \<open>.post\<close>,
  \<open>.delete\<close> (with that method) or to \<open>.all\<close> (with none), and
  \<open>Route.prototype.dispatch\<close> walks it with a cursor \<open>idx\<close> shared by every
  \<open>next\<close> of the request:
  \<^item> \<open>next(err)\<close> takes the layer under the cursor and advances the cursor; a layer of
    another method is skipped; with an error, a three-argument handler is skipped too
    (\<open>Layer.handle_error\<close> calls \<open>next(err)\<close> at once); without one, the handler runs;
  \<^item> when the cursor is past the last layer, \<open>next(err)\<close> leaves the route
    (\<open>done(err)\<close>): the router hands an error to the error handler and, without one,
    goes on to the next matching middleware (the application's not-found handler); the
    router's and the application's cursors are shared too, so a later exit of the same
    request finds them past those handlers and ends in Express's final handler.
  A handler is modelled by the list of effects it performs, in order: writes to
  \<open>response.locals\<close>, writes to the store, responses, and calls of \<open>next\<close>; a
  synchronous throw is the call \<open>next(err)\<close> that \<open>Layer.handle_request\<close> makes for it.
  Because \<open>next()\<close> runs the rest of the stack before it returns, a handler that calls
  \<open>next\<close> twice (the controllers' validators do, see \<open>Dishes\<close> and \<open>Orders\<close>) has
  its second call run with the cursor wherever the first left it. The trace of a request
  records every response and every exit from the route, in time order.

  The dispatcher recurses through nested \<open>next\<close> calls; it carries fuel, and
  \<open>next_layer_run_actions_enough\<close> shows that one unit per layer always suffices, so that
  \<open>dispatch_next\<close> and \<open>dispatch_actions\<close> below are total and fuel-free.
\<close>

section \<open>Requests, responses, traces\<close>

datatype http_method = GET | HEAD | POST | PUT | PATCH | DELETE | OPTIONS

text \<open>The paths the application mounts the two routers on, and everything else.\<close>

datatype path = PDishes | PDish string | POrders | POrder string | POther string

record request =
  r_method :: http_method
  r_path :: path
  r_body :: jval

text \<open>\<open>request.params.dishId\<close> and \<open>request.params.orderId\<close>.\<close>

fun route_param :: "path \<Rightarrow> string" where
  "route_param (PDish i) = i"
| "route_param (POrder i) = i"
| "route_param p = ''''"

fun original_url :: "path \<Rightarrow> string" where
  "original_url PDishes = ''/dishes''"
| "original_url (PDish i) = ''/dishes/'' @ i"
| "original_url POrders = ''/orders''"
| "original_url (POrder i) = ''/orders/'' @ i"
| "original_url (POther u) = u"

text \<open>\<open>response.status(s).json(v)\<close> and \<open>response.sendStatus(s)\<close>.\<close>

datatype response = JsonResp nat jval | StatusResp nat

datatype event = Sent response | Done "js_error option"

datatype ('l, 's) action =
    SetLocals "'l \<Rightarrow> 'l"
  | SetStore "'s \<Rightarrow> 's"
  | Send response
  | CallNext
  | CallNextErr js_error

type_synonym ('l, 's) handler = "request \<Rightarrow> 'l \<Rightarrow> 's \<Rightarrow> ('l, 's) action list"

type_synonym ('l, 's) layer = "http_method option \<times> ('l, 's) handler"

record ('l, 's) ctx =
  locals :: 'l
  store :: 's
  idx :: nat
  events :: "event list"

section \<open>Route stacks and dispatch\<close>

text \<open>
  \<open>router.route(p).get(hs1).put(hs2)...all(h)\<close>: the handler arrays are flattened into
  one stack in the order given, each layer tagged with its method.
\<close>

definition route_stack :: "(http_method \<times> ('l, 's) handler list) list \<Rightarrow> ('l, 's) handler \<Rightarrow> ('l, 's) layer list" where
  "route_stack ms h_all = concat (map (\<lambda>(m, hs). map (Pair (Some m)) hs) ms) @ [(None, h_all)]"

text \<open>A \<open>HEAD\<close> request runs the \<open>GET\<close> handlers of a route without \<open>HEAD\<close> ones.\<close>

fun dispatch_method :: "http_method \<Rightarrow> http_method" where
  "dispatch_method HEAD = GET"
| "dispatch_method m = m"

fun layer_matches :: "http_method option \<Rightarrow> http_method \<Rightarrow> bool" where
  "layer_matches None m = True"
| "layer_matches (Some m') m = (m = m')"

fun next_layer :: "nat \<Rightarrow> ('l, 's) layer list \<Rightarrow> http_method \<Rightarrow> request \<Rightarrow> js_error option \<Rightarrow>
    ('l, 's) ctx \<Rightarrow> ('l, 's) ctx option"
and run_actions :: "nat \<Rightarrow> ('l, 's) layer list \<Rightarrow> http_method \<Rightarrow> request \<Rightarrow> ('l, 's) action list \<Rightarrow>
    ('l, 's) ctx \<Rightarrow> ('l, 's) ctx option" where
  "next_layer 0 ls m r err c = None"
| "next_layer (Suc f) ls m r err c =
    (if length ls \<le> idx c then Some (c\<lparr>events := events c @ [Done err]\<rparr>)
     else let (lm, h) = ls ! idx c; c' = c\<lparr>idx := Suc (idx c)\<rparr> in
       if \<not> layer_matches lm m then next_layer f ls m r err c'
       else case err of
         Some e \<Rightarrow> next_layer f ls m r err c'
       | None \<Rightarrow> run_actions f ls m r (h r (locals c) (store c)) c')"
| "run_actions f ls m r [] c = Some c"
| "run_actions f ls m r (a # as) c =
    (case a of
       SetLocals g \<Rightarrow> run_actions f ls m r as (c\<lparr>locals := g (locals c)\<rparr>)
     | SetStore g \<Rightarrow> run_actions f ls m r as (c\<lparr>store := g (store c)\<rparr>)
     | Send resp \<Rightarrow> run_actions f ls m r as (c\<lparr>events := events c @ [Sent resp]\<rparr>)
     | CallNext \<Rightarrow>
         (case next_layer f ls m r None c of None \<Rightarrow> None | Some c' \<Rightarrow> run_actions f ls m r as c')
     | CallNextErr e \<Rightarrow>
         (case next_layer f ls m r (Some e) c of None \<Rightarrow> None | Some c' \<Rightarrow> run_actions f ls m r as c'))"

text \<open>The fuel one unit per remaining layer gives: always enough (below).\<close>

definition dispatch_next :: "('l, 's) layer list \<Rightarrow> http_method \<Rightarrow> request \<Rightarrow> js_error option \<Rightarrow>
    ('l, 's) ctx \<Rightarrow> ('l, 's) ctx option" where
  "dispatch_next ls m r err c = next_layer (Suc (length ls - idx c)) ls m r err c"

definition dispatch_actions :: "('l, 's) layer list \<Rightarrow> http_method \<Rightarrow> request \<Rightarrow> ('l, 's) action list \<Rightarrow>
    ('l, 's) ctx \<Rightarrow> ('l, 's) ctx option" where
  "dispatch_actions ls m r as c = run_actions (Suc (length ls - idx c)) ls m r as c"

text \<open>\<open>route.dispatch(req, res, done)\<close>: the first \<open>next()\<close>, cursor at 0.\<close>

definition route_dispatch :: "('l, 's) layer list \<Rightarrow> request \<Rightarrow> 'l \<Rightarrow> 's \<Rightarrow> ('l, 's) ctx option" where
  "route_dispatch ls r l s =
     dispatch_next ls (dispatch_method (r_method r)) r None
       \<lparr>locals = l, store = s, idx = 0, events = []\<rparr>"

text \<open>\<open>request.method\<close> as Node reports it.\<close>

fun method_name :: "http_method \<Rightarrow> string" where
  "method_name GET = ''GET''"
| "method_name HEAD = ''HEAD''"
| "method_name POST = ''POST''"
| "method_name PUT = ''PUT''"
| "method_name PATCH = ''PATCH''"
| "method_name DELETE = ''DELETE''"
| "method_name OPTIONS = ''OPTIONS''"

text \<open>
  \<open>methodNotAllowed\<close> (\<open>src/errors/methodNotAllowed.js\<close>, not among the sources;
  modelled from the specification): the handler both routers attach with \<open>.all\<close>.
\<close>

definition methodNotAllowed :: "('l, 's) handler" where
  "methodNotAllowed r l s =
     [CallNextErr (HttpError 405
        [Lit (method_name (r_method r)), Lit '' not allowed for '', Lit (original_url (r_path r))])]"

text \<open>A whole request on one route: its trace and the store it leaves.\<close>

definition run_route :: "('l, 's) layer list \<Rightarrow> request \<Rightarrow> 'l \<Rightarrow> 's \<Rightarrow> event list \<times> 's" where
  "run_route ls r l s =
     (case route_dispatch ls r l s of None \<Rightarrow> ([], s) | Some c \<Rightarrow> (events c, store c))"

section \<open>Fuel\<close>

lemma next_layer_run_actions_enough:
  shows "length ls - idx c < f \<Longrightarrow> \<exists>c'. next_layer f ls m r err c = Some c' \<and> idx c \<le> idx c'"
    and "length ls - idx c < f \<Longrightarrow> \<exists>c'. run_actions f ls m r as c = Some c' \<and> idx c \<le> idx c'"
proof (induction f ls m r err c and f ls m r as c rule: next_layer_run_actions.induct)
  case (1 ls m r err c)
  then show ?case by simp
next
  case (2 f ls m r err c)
  show ?case
  proof (cases "length ls \<le> idx c")
    case True
    then show ?thesis by simp
  next
    case False
    obtain lm h where lh: "ls ! idx c = (lm, h)" by fastforce
    from False "2.prems" have fuel: "length ls - idx (c\<lparr>idx := Suc (idx c)\<rparr>) < f" by simp
    show ?thesis
    proof (cases "layer_matches lm m")
      case False
      with "2.IH"(1) [OF _ lh [symmetric] _ refl False fuel] \<open>\<not> length ls \<le> idx c\<close> lh
      show ?thesis by fastforce
    next
      case True
      show ?thesis
      proof (cases err)
        case None
        with "2.IH"(2) [OF _ lh [symmetric] _ refl] True fuel \<open>\<not> length ls \<le> idx c\<close> lh
        show ?thesis by fastforce
      next
        case (Some e)
        with "2.IH"(3) [OF _ lh [symmetric] _ refl] True fuel \<open>\<not> length ls \<le> idx c\<close> lh
        show ?thesis by fastforce
      qed
    qed
  qed
next
  case (3 f ls m r c)
  then show ?case by simp
next
  case (4 f ls m r a as c)
  show ?case
  proof (cases a)
    case (SetLocals g)
    with "4.IH"(1) [OF SetLocals] "4.prems" show ?thesis by auto
  next
    case (SetStore g)
    with "4.IH"(2) [OF SetStore] "4.prems" show ?thesis by auto
  next
    case (Send resp)
    with "4.IH"(3) [OF Send] "4.prems" show ?thesis by auto
  next
    case CallNext
    with "4.IH"(4) "4.prems" obtain c1 where c1: "next_layer f ls m r None c = Some c1" "idx c \<le> idx c1"
      by blast
    with "4.prems" have "length ls - idx c1 < f" by linarith
    with "4.IH"(5) [OF CallNext c1(1)] c1 CallNext show ?thesis by fastforce
  next
    case (CallNextErr e)
    with "4.IH"(6) "4.prems" obtain c1 where c1: "next_layer f ls m r (Some e) c = Some c1" "idx c \<le> idx c1"
      by blast
    with "4.prems" have "length ls - idx c1 < f" by linarith
    with "4.IH"(7) [OF CallNextErr c1(1)] c1 CallNextErr show ?thesis by fastforce
  qed
qed

lemma next_layer_run_actions_mono:
  shows "next_layer f ls m r err c = Some c' \<Longrightarrow> next_layer (Suc f) ls m r err c = Some c'"
    and "run_actions f ls m r as c = Some c' \<Longrightarrow> run_actions (Suc f) ls m r as c = Some c'"
proof (induction f ls m r err c and f ls m r as c arbitrary: c' and c' rule: next_layer_run_actions.induct)
  case (1 ls m r err c)
  then show ?case by simp
next
  case (2 f ls m r err c)
  then show ?case
    by (auto simp: Let_def split: prod.splits option.splits if_splits)
next
  case (3 f ls m r c)
  then show ?case by simp
next
  case (4 f ls m r a as c)
  then show ?case
    by (cases a) (auto simp del: next_layer.simps split: option.splits)
qed

lemma run_actions_fuel_add:
  "run_actions f ls m r as c = Some c' \<Longrightarrow> run_actions (f + k) ls m r as c = Some c'"
  by (induction k) (simp_all add: next_layer_run_actions_mono(2))

lemma run_actions_fuel_le:
  "run_actions f ls m r as c = Some c' \<Longrightarrow> f \<le> g \<Longrightarrow> run_actions g ls m r as c = Some c'"
  using run_actions_fuel_add [of f ls m r as c c' "g - f"] by simp

text \<open>Any fuel above the number of remaining layers gives the same, defined, result.\<close>

lemma run_actions_dispatch_actions:
  assumes "length ls - idx c < f"
  shows "run_actions f ls m r as c = dispatch_actions ls m r as c"
proof -
  obtain c1 where c1: "run_actions f ls m r as c = Some c1"
    using next_layer_run_actions_enough(2) [OF assms] by blast
  obtain c2 where c2: "dispatch_actions ls m r as c = Some c2"
    using next_layer_run_actions_enough(2) [of ls c "Suc (length ls - idx c)" m r as]
    by (auto simp: dispatch_actions_def)
  have "run_actions (max f (Suc (length ls - idx c))) ls m r as c = Some c1"
    using c1 by (rule run_actions_fuel_le) simp
  moreover have "run_actions (max f (Suc (length ls - idx c))) ls m r as c = Some c2"
    using c2 unfolding dispatch_actions_def by (rule run_actions_fuel_le) simp
  ultimately show ?thesis using c1 c2 by simp
qed

lemma dispatch_next_defined:
  "\<exists>c'. dispatch_next ls m r err c = Some c' \<and> idx c \<le> idx c'"
  unfolding dispatch_next_def by (rule next_layer_run_actions_enough(1)) simp

section \<open>Fuel-free execution equations\<close>

lemma dispatch_next_exhausted [express_simps]:
  "length ls \<le> idx c \<Longrightarrow> dispatch_next ls m r err c = Some (c\<lparr>events := events c @ [Done err]\<rparr>)"
  by (simp add: dispatch_next_def)

lemma dispatch_next_skip [express_simps]:
  "idx c < length ls \<Longrightarrow> \<not> layer_matches (fst (ls ! idx c)) m \<Longrightarrow>
   dispatch_next ls m r err c = dispatch_next ls m r err (c\<lparr>idx := Suc (idx c)\<rparr>)"
  by (cases "ls ! idx c") (simp add: dispatch_next_def Suc_diff_Suc Let_def)

lemma dispatch_next_error [express_simps]:
  "idx c < length ls \<Longrightarrow> layer_matches (fst (ls ! idx c)) m \<Longrightarrow>
   dispatch_next ls m r (Some e) c = dispatch_next ls m r (Some e) (c\<lparr>idx := Suc (idx c)\<rparr>)"
  by (cases "ls ! idx c") (simp add: dispatch_next_def Suc_diff_Suc Let_def)

lemma dispatch_next_run [express_simps]:
  "idx c < length ls \<Longrightarrow> layer_matches (fst (ls ! idx c)) m \<Longrightarrow>
   dispatch_next ls m r None c =
     dispatch_actions ls m r (snd (ls ! idx c) r (locals c) (store c)) (c\<lparr>idx := Suc (idx c)\<rparr>)"
  by (cases "ls ! idx c") (simp add: dispatch_next_def dispatch_actions_def Suc_diff_Suc Let_def)

lemma dispatch_actions_Nil [express_simps]: "dispatch_actions ls m r [] c = Some c"
  by (simp add: dispatch_actions_def)

lemma dispatch_actions_SetLocals [express_simps]:
  "dispatch_actions ls m r (SetLocals g # as) c = dispatch_actions ls m r as (c\<lparr>locals := g (locals c)\<rparr>)"
  by (simp add: dispatch_actions_def)

lemma dispatch_actions_SetStore [express_simps]:
  "dispatch_actions ls m r (SetStore g # as) c = dispatch_actions ls m r as (c\<lparr>store := g (store c)\<rparr>)"
  by (simp add: dispatch_actions_def)

lemma dispatch_actions_Send [express_simps]:
  "dispatch_actions ls m r (Send resp # as) c =
     dispatch_actions ls m r as (c\<lparr>events := events c @ [Sent resp]\<rparr>)"
  by (simp add: dispatch_actions_def)

lemma dispatch_actions_call:
  assumes "dispatch_next ls m r err c = Some c1"
  shows "run_actions (Suc (length ls - idx c)) ls m r as c1 = dispatch_actions ls m r as c1"
proof -
  from assms dispatch_next_defined [of ls m r err c] have "idx c \<le> idx c1" by auto
  then show ?thesis by (intro run_actions_dispatch_actions) linarith
qed

lemma dispatch_actions_CallNext [express_simps]:
  "dispatch_actions ls m r (CallNext # as) c =
     (case dispatch_next ls m r None c of None \<Rightarrow> None | Some c' \<Rightarrow> dispatch_actions ls m r as c')"
proof -
  have "dispatch_actions ls m r (CallNext # as) c =
     (case dispatch_next ls m r None c of None \<Rightarrow> None
      | Some c' \<Rightarrow> run_actions (Suc (length ls - idx c)) ls m r as c')"
    by (simp only: dispatch_actions_def dispatch_next_def run_actions.simps(2) action.case)
  then show ?thesis
    using dispatch_actions_call [of ls m r None c] by (simp split: option.splits)
qed

lemma dispatch_actions_CallNextErr [express_simps]:
  "dispatch_actions ls m r (CallNextErr e # as) c =
     (case dispatch_next ls m r (Some e) c of None \<Rightarrow> None | Some c' \<Rightarrow> dispatch_actions ls m r as c')"
proof -
  have "dispatch_actions ls m r (CallNextErr e # as) c =
     (case dispatch_next ls m r (Some e) c of None \<Rightarrow> None
      | Some c' \<Rightarrow> run_actions (Suc (length ls - idx c)) ls m r as c')"
    by (simp only: dispatch_actions_def dispatch_next_def run_actions.simps(2) action.case)
  then show ?thesis
    using dispatch_actions_call [of ls m r "Some e" c] by (simp split: option.splits)
qed

lemma dispatch_actions_append:
  "dispatch_actions ls m r (as @ bs) c =
     (case dispatch_actions ls m r as c of None \<Rightarrow> None | Some c' \<Rightarrow> dispatch_actions ls m r bs c')"
proof (induction as arbitrary: c)
  case Nil
  then show ?case by (simp add: express_simps)
next
  case (Cons a as)
  then show ?case by (cases a) (simp_all add: express_simps split: option.splits)
qed

text \<open>
  An error skips every remaining layer: whatever handlers follow, \<open>next(err)\<close> moves the
  cursor past the end and leaves the route with that error.
\<close>

lemma dispatch_next_error_skips_all [express_simps]:
  "dispatch_next ls m r (Some e) c =
     Some (c\<lparr>idx := max (idx c) (length ls), events := events c @ [Done (Some e)]\<rparr>)"
proof (induction "length ls - idx c" arbitrary: c)
  case 0
  then show ?case by (simp add: dispatch_next_exhausted)
next
  case (Suc k)
  then have lt: "idx c < length ls" by simp
  have "dispatch_next ls m r (Some e) c = dispatch_next ls m r (Some e) (c\<lparr>idx := Suc (idx c)\<rparr>)"
    using lt by (cases "layer_matches (fst (ls ! idx c)) m")
      (simp_all add: dispatch_next_error dispatch_next_skip)
  also have "\<dots> = Some (c\<lparr>idx := max (Suc (idx c)) (length ls), events := events c @ [Done (Some e)]\<rparr>)"
    using Suc.hyps(1) [of "c\<lparr>idx := Suc (idx c)\<rparr>"] Suc.hyps(2) by simp
  finally show ?case using lt by (simp add: max_def)
qed

text \<open>\<open>run_route\<close> through the fuel-free equations.\<close>

lemma run_route_dispatch [express_simps]:
  "route_dispatch ls r l s = Some c \<Longrightarrow> run_route ls r l s = (events c, store c)"
  by (simp add: run_route_def)

end
