(* ===== verification/Store.thy ===== *)
theory Store
  imports Express
begin

text \<open>
  The repository both controllers share: the module-level arrays \<open>dishes\<close> and
  \<open>orders\<close> (loaded from \<open>src/data/dishes-data\<close> and \<open>src/data/orders-data\<close>)
  and the identifier generator \<open>nextId\<close> (\<open>src/utils/nextId\<close>). The data files and
  the generator are not among the sources; the records follow the object literals the
  controllers build, and the generator is modelled from the specification ("a fresh
  unique identifier per creation call") as a counter printed in decimal.
\<close>

section \<open>Records\<close>

text \<open>
  The object literal \<open>{id, name, description, price, image_url}\<close> of \<open>create\<close> in
  \<open>dishes.controller.js\<close>. Every field but the identifier holds whatever the request
  body held, so it is a JavaScript value (possibly \<open>undefined\<close>).
\<close>

record dish =
  dish_id :: string
  dish_name :: jsval
  dish_description :: jsval
  dish_price :: jsval
  dish_image_url :: jsval

text \<open>\<open>{id, deliverTo, mobileNumber, status, dishes}\<close> of \<open>create\<close> in \<open>orders.controller.js\<close>.\<close>

record order =
  order_id :: string
  order_deliverTo :: jsval
  order_mobileNumber :: jsval
  order_status :: jsval
  order_dishes :: jsval

record db =
  db_dishes :: "dish list"
  db_orders :: "order list"
  db_seed :: nat

definition dish_json :: "dish \<Rightarrow> jval" where
  "dish_json d = js_object
     [(''id'', Some (JStr (dish_id d))), (''name'', dish_name d), (''description'', dish_description d),
      (''price'', dish_price d), (''image_url'', dish_image_url d)]"

definition order_json :: "order \<Rightarrow> jval" where
  "order_json od = js_object
     [(''id'', Some (JStr (order_id od))), (''deliverTo'', order_deliverTo od),
      (''mobileNumber'', order_mobileNumber od), (''status'', order_status od), (''dishes'', order_dishes od)]"

section \<open>The identifier generator\<close>

fun digits_of :: "nat \<Rightarrow> string" where
  "digits_of n =
     (if n < 10 then [char_of (48 + n)] else digits_of (n div 10) @ [char_of (48 + n mod 10)])"

declare digits_of.simps [simp del]

definition nat_of_digits :: "string \<Rightarrow> nat" where
  "nat_of_digits s = foldl (\<lambda>acc c. 10 * acc + (of_char c - 48)) 0 s"

text \<open>\<open>nextId()\<close>: the next identifier, and the generator advanced.\<close>

definition nextId :: "db \<Rightarrow> string \<times> db" where
  "nextId s = (digits_of (db_seed s), s\<lparr>db_seed := Suc (db_seed s)\<rparr>)"

text \<open>
  A string the generator could print, and the freshness invariant: every such string
  among the stored identifiers was printed before the counter's current value.
\<close>

definition minted :: "string \<Rightarrow> bool" where
  "minted s \<longleftrightarrow> digits_of (nat_of_digits s) = s"

definition ids_fresh :: "string list \<Rightarrow> nat \<Rightarrow> bool" where
  "ids_fresh ids seed \<longleftrightarrow> (\<forall>s \<in> set ids. minted s \<longrightarrow> nat_of_digits s < seed)"

definition all_ids :: "db \<Rightarrow> string list" where
  "all_ids s = map dish_id (db_dishes s) @ map order_id (db_orders s)"

text \<open>Identifiers are unique within each collection and fresh for the generator.\<close>

definition ids_ok :: "db \<Rightarrow> bool" where
  "ids_ok s \<longleftrightarrow> distinct (map dish_id (db_dishes s)) \<and> distinct (map order_id (db_orders s))
     \<and> ids_fresh (all_ids s) (db_seed s)"

section \<open>The shape of the "has a field" validators\<close>

text \<open>
  \<open>dishHasName\<close>, \<open>dishHasDescription\<close>, \<open>dishHasImageUrl\<close>,
  \<open>orderRequiresDeliverTo\<close> and \<open>orderRequiresMobileNumber\<close> share one shape: read
  the field from \<open>request.body.data\<close>; when it is falsy or \<open>""\<close>, call
  \<open>next(error)\<close>; then, without returning, store the field in \<open>response.locals\<close> and
  call \<open>next()\<close>.
\<close>

definition field_check :: "string \<Rightarrow> string \<Rightarrow> (jsval \<Rightarrow> 'l \<Rightarrow> 'l) \<Rightarrow> ('l, 's) handler" where
  "field_check k msg setf r l s =
     (case body_data (r_body r) of
        Inl e \<Rightarrow> [CallNextErr e]
      | Inr d \<Rightarrow>
          let v = get_prop d k in
          (if \<not> truthy v \<or> v = Some (JStr '''') then [CallNextErr (HttpError 400 [Lit msg])] else [])
          @ [SetLocals (setf v), CallNext])"

section \<open>Lemmas\<close>

lemma nat_of_digits_snoc:
  "nat_of_digits (s @ [c]) = 10 * nat_of_digits s + (of_char c - 48)"
  by (simp add: nat_of_digits_def)

lemma of_char_digit: "d < 10 \<Longrightarrow> of_char (char_of (48 + d) :: char) - 48 = (d::nat)"
  by simp

lemma nat_of_digits_digits_of [simp]: "nat_of_digits (digits_of n) = n"
proof (induction n rule: digits_of.induct)
  case (1 n)
  show ?case
  proof (cases "n < 10")
    case True
    then show ?thesis
      by (subst digits_of.simps) (simp add: nat_of_digits_def)
  next
    case False
    then have "nat_of_digits (digits_of n) = 10 * (n div 10) + n mod 10"
      using "1.IH" by (subst digits_of.simps) (simp add: nat_of_digits_snoc of_char_digit)
    then show ?thesis by simp
  qed
qed

lemma minted_digits_of [simp]: "minted (digits_of n)"
  by (simp add: minted_def)

lemma ids_fresh_fresh:
  "ids_fresh ids seed \<Longrightarrow> digits_of seed \<notin> set ids"
  by (auto simp: ids_fresh_def)

lemma ids_fresh_mono:
  "ids_fresh ids seed \<Longrightarrow> seed \<le> seed' \<Longrightarrow> set ids' \<subseteq> set ids \<Longrightarrow> ids_fresh ids' seed'"
  by (fastforce simp: ids_fresh_def)

lemma ids_fresh_add:
  "ids_fresh ids seed \<Longrightarrow> set ids' \<subseteq> insert (digits_of seed) (set ids) \<Longrightarrow> ids_fresh ids' (Suc seed)"
  by (fastforce simp: ids_fresh_def)

end
