(* ===== verification/Dishes.thy ===== *)
theory Dishes
  imports Store
begin

text \<open>
  \<open>src/dishes/dishes.controller.js\<close>: the validators and handlers of the dishes
  resource, the stacks \<open>module.exports\<close> builds from them, and the two routes of the
  dishes router (\<open>src/dishes/dishes.router.js\<close> is not among the sources; it is
  modelled after \<open>orders.router.js\<close> and the specification: \<open>/:dishId\<close> with
  \<open>get\<close>, \<open>put\<close>, \<open>all\<close>, and \<open>/\<close> with \<open>post\<close>, \<open>get\<close>, \<open>all\<close>).
  The handlers' \<open>response.locals\<close> is the record \<open>dish_locals\<close>; the dish found by
  \<open>dishExists\<close> is kept as its position in the array.
\<close>

section \<open>Locals\<close>

record dish_locals =
  ld_dish :: "nat option"
  ld_name :: jsval
  ld_description :: jsval
  ld_price :: jsval
  ld_image_url :: jsval

definition no_dish_locals :: dish_locals where
  "no_dish_locals =
     \<lparr>ld_dish = None, ld_name = None, ld_description = None, ld_price = None, ld_image_url = None\<rparr>"

type_synonym dish_handler = "(dish_locals, db) handler"

section \<open>Validation\<close>

definition dishExists :: dish_handler where
  "dishExists r l s =
     (let dishId = route_param (r_path r) in
      case first_index (\<lambda>dish. dish_id dish = dishId) (db_dishes s) of
        Some i \<Rightarrow> [SetLocals (\<lambda>l. l\<lparr>ld_dish := Some i\<rparr>), CallNext]
      | None \<Rightarrow> [CallNextErr (HttpError 404 [Lit ''Dish does not exist: '', Lit dishId])])"

definition dishIdAbsentOrMatches :: dish_handler where
  "dishIdAbsentOrMatches r l s =
     (case body_data (r_body r) of
        Inl e \<Rightarrow> [CallNextErr e]
      | Inr d \<Rightarrow>
          let bodyId = get_prop d ''id''; dishId = route_param (r_path r) in
          if \<not> truthy bodyId \<or> bodyId = Some (JStr dishId) then [CallNext]
          else [CallNextErr (HttpError 400
                  [Lit ''Dish id does not match route id. Dish: '', Val bodyId, Lit '', Route: '', Lit dishId])])"

definition dishHasName :: dish_handler where
  "dishHasName = field_check ''name'' ''Dish must include a name'' (\<lambda>v l. l\<lparr>ld_name := v\<rparr>)"

definition dishHasDescription :: dish_handler where
  "dishHasDescription =
     field_check ''description'' ''Dish must include a description'' (\<lambda>v l. l\<lparr>ld_description := v\<rparr>)"

definition dishHasPrice :: dish_handler where
  "dishHasPrice r l s =
     (case body_data (r_body r) of
        Inl e \<Rightarrow> [CallNextErr e]
      | Inr d \<Rightarrow>
          let price = get_prop d ''price'' in
          (if \<not> truthy price then [CallNextErr (HttpError 400 [Lit ''Dish must include a price''])] else [])
          @ [SetLocals (\<lambda>l. l\<lparr>ld_price := price\<rparr>), CallNext])"

definition priceIsPositiveInteger :: dish_handler where
  "priceIsPositiveInteger r l s =
     (let price = ld_price l in
      (if le_zero_or_not_integer price
       then [CallNextErr (HttpError 400 [Lit ''Dish must have a price that is an integer greater than 0''])]
       else [])
      @ [CallNext])"

definition dishHasImageUrl :: dish_handler where
  "dishHasImageUrl =
     field_check ''image_url'' ''Dish must include a image_url'' (\<lambda>v l. l\<lparr>ld_image_url := v\<rparr>)"

section \<open>Handlers\<close>

text \<open>The dish \<open>create\<close> builds from the request body and the identifier it mints.\<close>

definition new_dish :: "string \<Rightarrow> jval \<Rightarrow> dish" where
  "new_dish nid d =
     \<lparr>dish_id = nid, dish_name = get_prop d ''name'', dish_description = get_prop d ''description'',
      dish_price = get_prop d ''price'', dish_image_url = get_prop d ''image_url''\<rparr>"

definition dishes_create :: dish_handler where
  "dishes_create r l s =
     (case body_data (r_body r) of
        Inl e \<Rightarrow> [CallNextErr e]
      | Inr d \<Rightarrow>
          let newId = fst (nextId s); newDish = new_dish newId d in
          [SetStore (\<lambda>s. snd (nextId s)),
           SetStore (\<lambda>s. s\<lparr>db_dishes := db_dishes s @ [newDish]\<rparr>),
           Send (JsonResp 201 (js_object [(''data'', Some (dish_json newDish))]))])"

definition dishes_read :: dish_handler where
  "dishes_read r l s =
     [Send (JsonResp 200 (js_object [(''data'', map_option (\<lambda>i. dish_json (db_dishes s ! i)) (ld_dish l))]))]"

text \<open>The fields the validators stored, written into the found dish object in place.\<close>

definition updated_dish :: "dish \<Rightarrow> dish_locals \<Rightarrow> dish" where
  "updated_dish dish l =
     dish\<lparr>dish_name := ld_name l, dish_description := ld_description l,
          dish_price := ld_price l, dish_image_url := ld_image_url l\<rparr>"

definition dishes_update :: dish_handler where
  "dishes_update r l s =
     (case ld_dish l of
        None \<Rightarrow> [CallNextErr (TypeError ''Cannot set properties of undefined (setting name)'')]
      | Some i \<Rightarrow>
          let dish = updated_dish (db_dishes s ! i) l in
          [SetStore (\<lambda>s. s\<lparr>db_dishes := (db_dishes s)[i := dish]\<rparr>),
           Send (JsonResp 200 (js_object [(''data'', Some (dish_json dish))]))])"

definition dishes_list :: dish_handler where
  "dishes_list r l s =
     [Send (JsonResp 200 (js_object [(''data'', Some (JArr (map dish_json (db_dishes s))))]))]"

section \<open>Exported stacks and routes\<close>

definition dishes_create_stack :: "dish_handler list" where
  "dishes_create_stack =
     [dishHasName, dishHasDescription, dishHasPrice, priceIsPositiveInteger, dishHasImageUrl, dishes_create]"

definition dishes_update_stack :: "dish_handler list" where
  "dishes_update_stack =
     [dishExists, dishIdAbsentOrMatches, dishHasName, dishHasDescription, dishHasPrice,
      priceIsPositiveInteger, dishHasImageUrl, dishes_update]"

definition dishes_read_stack :: "dish_handler list" where
  "dishes_read_stack = [dishExists, dishes_read]"

definition dish_item_route :: "(dish_locals, db) layer list" where
  "dish_item_route = route_stack [(GET, dishes_read_stack), (PUT, dishes_update_stack)] methodNotAllowed"

definition dish_root_route :: "(dish_locals, db) layer list" where
  "dish_root_route = route_stack [(POST, dishes_create_stack), (GET, [dishes_list])] methodNotAllowed"

section \<open>Specification of the routes\<close>

text \<open>
  The contract of the specification (section 4.1): the checks of a dish, in order,
  stopping at the first failure.
\<close>

definition validate_dish :: "jval \<Rightarrow> js_error option" where
  "validate_dish d = first_failure
     [require_truthy d ''name'' ''Dish must include a name'',
      require_truthy d ''description'' ''Dish must include a description'',
      require_truthy d ''price'' ''Dish must include a price'',
      (if positive_integer (get_prop d ''price'') then None
       else Some (HttpError 400 [Lit ''Dish must have a price that is an integer greater than 0''])),
      require_truthy d ''image_url'' ''Dish must include a image_url'']"

definition dish_id_mismatch :: "jval \<Rightarrow> string \<Rightarrow> js_error option" where
  "dish_id_mismatch d dishId =
     (let bodyId = get_prop d ''id'' in
      if \<not> truthy bodyId \<or> bodyId = Some (JStr dishId) then None
      else Some (HttpError 400
        [Lit ''Dish id does not match route id. Dish: '', Val bodyId, Lit '', Route: '', Lit dishId]))"

definition dish_with_fields :: "dish \<Rightarrow> jval \<Rightarrow> dish" where
  "dish_with_fields dish d =
     dish\<lparr>dish_name := get_prop d ''name'', dish_description := get_prop d ''description'',
          dish_price := get_prop d ''price'', dish_image_url := get_prop d ''image_url''\<rparr>"

definition dish_not_found :: "string \<Rightarrow> js_error" where
  "dish_not_found dishId = HttpError 404 [Lit ''Dish does not exist: '', Lit dishId]"

text \<open>
  What a client is promised: the first event of the request (a response, or an error
  handed on to the error handler) and the store afterwards.
\<close>

definition dish_create_spec :: "jval \<Rightarrow> db \<Rightarrow> event \<times> db" where
  "dish_create_spec body s =
     (case body_data body of
        Inl e \<Rightarrow> (Done (Some e), s)
      | Inr d \<Rightarrow>
          (case validate_dish d of
             Some e \<Rightarrow> (Done (Some e), s)
           | None \<Rightarrow>
               let dish = new_dish (digits_of (db_seed s)) d in
               (Sent (JsonResp 201 (js_object [(''data'', Some (dish_json dish))])),
                s\<lparr>db_dishes := db_dishes s @ [dish], db_seed := Suc (db_seed s)\<rparr>)))"

definition dish_update_spec :: "string \<Rightarrow> jval \<Rightarrow> db \<Rightarrow> event \<times> db" where
  "dish_update_spec dishId body s =
     (case first_index (\<lambda>dish. dish_id dish = dishId) (db_dishes s) of
        None \<Rightarrow> (Done (Some (dish_not_found dishId)), s)
      | Some i \<Rightarrow>
          (case body_data body of
             Inl e \<Rightarrow> (Done (Some e), s)
           | Inr d \<Rightarrow>
               (case first_failure [dish_id_mismatch d dishId, validate_dish d] of
                  Some e \<Rightarrow> (Done (Some e), s)
                | None \<Rightarrow>
                    let dish = dish_with_fields (db_dishes s ! i) d in
                    (Sent (JsonResp 200 (js_object [(''data'', Some (dish_json dish))])),
                     s\<lparr>db_dishes := (db_dishes s)[i := dish]\<rparr>))))"

text \<open>
  The data invariant of the specification (section 3): every stored dish has passed the
  validators, and identifiers are unique and fresh.
\<close>

definition dish_ok :: "dish \<Rightarrow> bool" where
  "dish_ok dish \<longleftrightarrow> truthy (dish_name dish) \<and> truthy (dish_description dish)
     \<and> positive_integer (dish_price dish) \<and> truthy (dish_image_url dish)"

definition dishes_inv :: "db \<Rightarrow> bool" where
  "dishes_inv s \<longleftrightarrow> ids_ok s \<and> list_all dish_ok (db_dishes s)"

section \<open>Symbolic execution of the routes\<close>

lemmas dish_handler_defs = dishHasName_def dishHasDescription_def dishHasPrice_def
  priceIsPositiveInteger_def dishHasImageUrl_def field_check_def dishes_create_def dishExists_def
  dishIdAbsentOrMatches_def dishes_read_def dishes_update_def dishes_list_def methodNotAllowed_def
  updated_dish_def

lemmas dish_route_defs = run_route_def route_dispatch_def dish_root_route_def dish_item_route_def
  route_stack_def dishes_create_stack_def dishes_update_stack_def dishes_read_stack_def no_dish_locals_def

lemmas dish_spec_defs = validate_dish_def require_truthy_def dish_id_mismatch_def dish_with_fields_def
  dish_not_found_def

lemma dish_root_route_POST:
  "run_route dish_root_route \<lparr>r_method = POST, r_path = p, r_body = body\<rparr> no_dish_locals s =
     (case body_data body of
        Inl e \<Rightarrow> ([Done (Some e)], s)
      | Inr d \<Rightarrow>
          (case validate_dish d of
             Some e \<Rightarrow> ([Done (Some e), Done None], s)
           | None \<Rightarrow>
               let dish = new_dish (digits_of (db_seed s)) d in
               ([Sent (JsonResp 201 (js_object [(''data'', Some (dish_json dish))]))],
                s\<lparr>db_dishes := db_dishes s @ [dish], db_seed := Suc (db_seed s)\<rparr>)))"
  by (cases "body_data body")
    (simp_all add: dish_route_defs express_simps nth_Cons' dish_handler_defs dish_spec_defs Let_def
      nextId_def le_zero_or_not_integer_iff)

lemma dish_root_route_GET:
  assumes "dispatch_method m = GET"
  shows "run_route dish_root_route \<lparr>r_method = m, r_path = p, r_body = body\<rparr> no_dish_locals s =
     ([Sent (JsonResp 200 (js_object [(''data'', Some (JArr (map dish_json (db_dishes s))))]))], s)"
  using assms by (simp add: dish_route_defs express_simps nth_Cons' dish_handler_defs)

lemma dish_root_route_other:
  assumes "dispatch_method m \<notin> {POST, GET}"
  shows "run_route dish_root_route \<lparr>r_method = m, r_path = p, r_body = body\<rparr> no_dish_locals s =
     ([Done (Some (HttpError 405 [Lit (method_name m), Lit '' not allowed for '', Lit (original_url p)]))], s)"
  using assms by (simp add: dish_route_defs express_simps nth_Cons' dish_handler_defs)

lemma dish_item_route_GET:
  assumes "dispatch_method m = GET"
  shows "run_route dish_item_route \<lparr>r_method = m, r_path = p, r_body = body\<rparr> no_dish_locals s =
     (let dishId = route_param p in
      case first_index (\<lambda>dish. dish_id dish = dishId) (db_dishes s) of
        None \<Rightarrow> ([Done (Some (dish_not_found dishId))], s)
      | Some i \<Rightarrow> ([Sent (JsonResp 200 (js_object [(''data'', Some (dish_json (db_dishes s ! i)))]))], s))"
  using assms
  by (cases "first_index (\<lambda>dish. dish_id dish = route_param p) (db_dishes s)")
    (simp_all add: dish_route_defs express_simps nth_Cons' dish_handler_defs dish_spec_defs)

lemma dish_item_route_other:
  assumes "dispatch_method m \<notin> {PUT, GET}"
  shows "run_route dish_item_route \<lparr>r_method = m, r_path = p, r_body = body\<rparr> no_dish_locals s =
     ([Done (Some (HttpError 405 [Lit (method_name m), Lit '' not allowed for '', Lit (original_url p)]))], s)"
  using assms by (simp add: dish_route_defs express_simps nth_Cons' dish_handler_defs)

lemma dish_item_route_PUT:
  "run_route dish_item_route \<lparr>r_method = PUT, r_path = p, r_body = body\<rparr> no_dish_locals s =
     (let dishId = route_param p in
      case first_index (\<lambda>dish. dish_id dish = dishId) (db_dishes s) of
        None \<Rightarrow> ([Done (Some (dish_not_found dishId))], s)
      | Some i \<Rightarrow>
          (case body_data body of
             Inl e \<Rightarrow> ([Done (Some e)], s)
           | Inr d \<Rightarrow>
               (case dish_id_mismatch d dishId of
                  Some e \<Rightarrow> ([Done (Some e)], s)
                | None \<Rightarrow>
                    (case validate_dish d of
                       Some e \<Rightarrow> ([Done (Some e), Done None], s)
                     | None \<Rightarrow>
                         let dish = dish_with_fields (db_dishes s ! i) d in
                         ([Sent (JsonResp 200 (js_object [(''data'', Some (dish_json dish))]))],
                          s\<lparr>db_dishes := (db_dishes s)[i := dish]\<rparr>)))))"
  by (cases "first_index (\<lambda>dish. dish_id dish = route_param p) (db_dishes s)"; cases "body_data body")
    (simp_all add: dish_route_defs express_simps nth_Cons' dish_handler_defs dish_spec_defs Let_def
      le_zero_or_not_integer_iff)

section \<open>Validation and the invariant\<close>

lemma validate_dish_None_iff:
  "validate_dish d = None \<longleftrightarrow>
     truthy (get_prop d ''name'') \<and> truthy (get_prop d ''description'')
     \<and> positive_integer (get_prop d ''price'') \<and> truthy (get_prop d ''image_url'')"
  by (auto simp: validate_dish_def require_truthy_def positive_integer_truthy)

lemma dish_ok_new_dish [simp]: "dish_ok (new_dish x d) \<longleftrightarrow> validate_dish d = None"
  by (simp add: dish_ok_def new_dish_def validate_dish_None_iff)

lemma dish_ok_with_fields [simp]: "dish_ok (dish_with_fields dish d) \<longleftrightarrow> validate_dish d = None"
  by (simp add: dish_ok_def dish_with_fields_def validate_dish_None_iff)

lemma dish_id_with_fields [simp]: "dish_id (dish_with_fields dish d) = dish_id dish"
  by (simp add: dish_with_fields_def)

lemma ids_ok_add_dish:
  assumes "ids_ok s"
  shows "ids_ok (s\<lparr>db_dishes := db_dishes s @ [new_dish (digits_of (db_seed s)) d], db_seed := Suc (db_seed s)\<rparr>)"
proof -
  have fresh: "digits_of (db_seed s) \<notin> set (all_ids s)"
    using assms by (simp add: ids_ok_def ids_fresh_fresh)
  then have "digits_of (db_seed s) \<notin> dish_id ` set (db_dishes s)"
    by (simp add: all_ids_def)
  with assms show ?thesis
    by (auto simp: ids_ok_def new_dish_def all_ids_def intro: ids_fresh_add)
qed

lemma ids_ok_update_dish:
  assumes "ids_ok s" and "i < length (db_dishes s)" and "dish_id x = dish_id (db_dishes s ! i)"
  shows "ids_ok (s\<lparr>db_dishes := (db_dishes s)[i := x]\<rparr>)"
proof -
  have "map dish_id ((db_dishes s)[i := x]) = map dish_id (db_dishes s)"
    using assms(2,3) by (simp add: map_update list_update_same_conv)
  with assms(1) show ?thesis by (simp add: ids_ok_def all_ids_def)
qed

lemma dish_root_route_inv:
  assumes "dishes_inv s"
  shows "dishes_inv (snd (run_route dish_root_route \<lparr>r_method = m, r_path = p, r_body = body\<rparr> no_dish_locals s))"
proof (cases "dispatch_method m = POST")
  case True
  then have m: "m = POST" by (cases m) simp_all
  show ?thesis
    using assms ids_ok_add_dish [of s]
    by (auto simp: m dish_root_route_POST dishes_inv_def Let_def split: sum.splits option.splits)
next
  case False
  with assms show ?thesis
    by (cases "dispatch_method m = GET") (simp_all add: dish_root_route_GET dish_root_route_other)
qed

lemma dish_item_route_inv:
  assumes "dishes_inv s"
  shows "dishes_inv (snd (run_route dish_item_route \<lparr>r_method = m, r_path = p, r_body = body\<rparr> no_dish_locals s))"
proof (cases "dispatch_method m = PUT")
  case True
  then have m: "m = PUT" by (cases m) simp_all
  have upd: "dishes_inv (s\<lparr>db_dishes := (db_dishes s)[i := dish_with_fields (db_dishes s ! i) d]\<rparr>)"
    if "first_index (\<lambda>dish. dish_id dish = route_param p) (db_dishes s) = Some i" "validate_dish d = None" for i d
  proof -
    from that(1) have i: "i < length (db_dishes s)" by blast
    with assms that(2) show ?thesis
      by (auto simp: dishes_inv_def list_all_length nth_list_update intro: ids_ok_update_dish)
  qed
  show ?thesis
    using assms upd
    by (auto simp: m dish_item_route_PUT Let_def split: sum.splits option.splits)
next
  case False
  with assms show ?thesis
    by (cases "dispatch_method m = GET")
      (simp_all add: dish_item_route_GET dish_item_route_other Let_def split: option.splits)
qed

section \<open>Properties of the dishes routes\<close>

text \<open>
  C2. \<open>POST /dishes\<close> implements the specified creation contract: the first thing the
  request produces (a response, or the error handed to the error handler) and the store
  it leaves are those of \<open>dish_create_spec\<close>: a \<open>TypeError\<close> when the body has no
  \<open>data\<close>, the first failing check of the validation pipeline, or a 201 with the new
  dish appended under a freshly minted identifier.
\<close>

theorem dish_create_refines:
  "(hd (fst (run_route dish_root_route \<lparr>r_method = POST, r_path = p, r_body = body\<rparr> no_dish_locals s)),
    snd (run_route dish_root_route \<lparr>r_method = POST, r_path = p, r_body = body\<rparr> no_dish_locals s))
   = dish_create_spec body s"
  by (simp add: dish_root_route_POST dish_create_spec_def Let_def split: sum.splits option.splits)

text \<open>
  C3. \<open>PUT /dishes/:dishId\<close> implements the specified update contract
  \<open>dish_update_spec\<close>: 404 for an unknown dish, then the body's \<open>id\<close> against the
  route, then the dish validators, and on success the found dish's four fields replaced
  in place (its identifier kept) and a 200 with the updated dish.
\<close>

theorem dish_update_refines:
  "(hd (fst (run_route dish_item_route \<lparr>r_method = PUT, r_path = p, r_body = body\<rparr> no_dish_locals s)),
    snd (run_route dish_item_route \<lparr>r_method = PUT, r_path = p, r_body = body\<rparr> no_dish_locals s))
   = dish_update_spec (route_param p) body s"
  by (simp add: dish_item_route_PUT dish_update_spec_def Let_def split: sum.splits option.splits)

text \<open>
  C17. A dish that fails validation leaves the route twice: the validator calls
  \<open>next(error)\<close>, which skips every remaining handler, and then falls through to
  \<open>next()\<close>, which (the cursor now past the stack) leaves the route once more without
  an error, after the 400 was sent; that second exit ends in Express's final handler.
  The store is unchanged.
\<close>

theorem dish_create_rejects_twice:
  assumes "body_data body = Inr d" and "validate_dish d = Some e"
  shows "run_route dish_root_route \<lparr>r_method = POST, r_path = p, r_body = body\<rparr> no_dish_locals s =
           ([Done (Some e), Done None], s)"
  using assms by (simp add: dish_root_route_POST)

theorem dish_create_rejects_twice_witness:
  "run_route dish_root_route
     \<lparr>r_method = POST, r_path = PDishes, r_body = JObj [(''data'', JObj [(''price'', JNum 8)])]\<rparr>
     no_dish_locals \<lparr>db_dishes = [], db_orders = [], db_seed = 0\<rparr> =
   ([Done (Some (HttpError 400 [Lit ''Dish must include a name''])), Done None],
    \<lparr>db_dishes = [], db_orders = [], db_seed = 0\<rparr>)"
  using dish_create_rejects_twice [of "JObj [(''data'', JObj [(''price'', JNum 8)])]"
      "JObj [(''price'', JNum 8)]" "HttpError 400 [Lit ''Dish must include a name'']" PDishes
      "\<lparr>db_dishes = [], db_orders = [], db_seed = 0\<rparr>"]
  by (simp add: body_data_def validate_dish_def require_truthy_def)

text \<open>
  C25. \<open>GET /dishes/:dishId\<close> (and \<open>HEAD\<close>, which runs the same handlers) of a stored
  dish answers 200 with exactly that stored record, when identifiers are unique, and
  changes nothing. (For \<open>HEAD\<close> the HTTP layer then leaves the body out; that layer is not
  modelled.)
\<close>

theorem dish_read_returns_stored:
  assumes "distinct (map dish_id (db_dishes s))" and "i < length (db_dishes s)"
    and "dispatch_method m = GET"
  shows "run_route dish_item_route \<lparr>r_method = m, r_path = PDish (dish_id (db_dishes s ! i)), r_body = body\<rparr>
           no_dish_locals s =
         ([Sent (JsonResp 200 (js_object [(''data'', Some (dish_json (db_dishes s ! i)))]))], s)"
proof -
  have "first_index (\<lambda>dish. dish_id dish = dish_id (db_dishes s ! i)) (db_dishes s) = Some i"
    using assms(1,2) by (rule first_index_distinct) simp
  with assms(3) show ?thesis by (simp add: dish_item_route_GET)
qed

theorem dish_read_returns_stored_witness:
  "run_route dish_item_route \<lparr>r_method = GET, r_path = PDish ''b'', r_body = JObj []\<rparr> no_dish_locals
     \<lparr>db_dishes = [\<lparr>dish_id = ''a'', dish_name = None, dish_description = None, dish_price = None,
                     dish_image_url = None\<rparr>,
                   \<lparr>dish_id = ''b'', dish_name = Some (JStr ''Taco''), dish_description = None,
                     dish_price = Some (JNum 8), dish_image_url = None\<rparr>],
       db_orders = [], db_seed = 0\<rparr> =
   ([Sent (JsonResp 200 (JObj [(''data'', JObj [(''id'', JStr ''b''), (''name'', JStr ''Taco''),
                                             (''price'', JNum 8)])]))],
    \<lparr>db_dishes = [\<lparr>dish_id = ''a'', dish_name = None, dish_description = None, dish_price = None,
                     dish_image_url = None\<rparr>,
                   \<lparr>dish_id = ''b'', dish_name = Some (JStr ''Taco''), dish_description = None,
                     dish_price = Some (JNum 8), dish_image_url = None\<rparr>],
       db_orders = [], db_seed = 0\<rparr>)"
  using dish_read_returns_stored [of
      "\<lparr>db_dishes = [\<lparr>dish_id = ''a'', dish_name = None, dish_description = None, dish_price = None,
                     dish_image_url = None\<rparr>,
                   \<lparr>dish_id = ''b'', dish_name = Some (JStr ''Taco''), dish_description = None,
                     dish_price = Some (JNum 8), dish_image_url = None\<rparr>],
       db_orders = [], db_seed = 0\<rparr>" 1 GET "JObj []"]
  by (simp add: dish_json_def)

text \<open>
  C23. The price rule of the specification: for a dish whose name, description and
  image_url are present, \<open>POST /dishes\<close> answers 201 exactly when the price is a positive
  integer, and otherwise fails with a 400 (the route then being left twice).
\<close>

theorem dish_price_rule:
  assumes "body_data body = Inr d" and "truthy (get_prop d ''name'')"
    and "truthy (get_prop d ''description'')" and "truthy (get_prop d ''image_url'')"
  shows "(positive_integer (get_prop d ''price'') \<longrightarrow>
            (\<exists>v. fst (run_route dish_root_route \<lparr>r_method = POST, r_path = p, r_body = body\<rparr> no_dish_locals s)
                 = [Sent (JsonResp 201 v)]))
       \<and> (\<not> positive_integer (get_prop d ''price'') \<longrightarrow>
            (\<exists>msg. fst (run_route dish_root_route \<lparr>r_method = POST, r_path = p, r_body = body\<rparr> no_dish_locals s)
                 = [Done (Some (HttpError 400 msg)), Done None]))"
  using assms
  by (auto simp: dish_root_route_POST validate_dish_def require_truthy_def Let_def dest: positive_integer_truthy)

theorem dish_price_rule_witness:
  "\<exists>msg. fst (run_route dish_root_route
     \<lparr>r_method = POST, r_path = PDishes,
      r_body = JObj [(''data'', JObj [(''name'', JStr ''Taco''), (''description'', JStr ''Spicy''),
                                    (''price'', JNum (17 / 2)), (''image_url'', JStr ''http://x'')])]\<rparr>
     no_dish_locals \<lparr>db_dishes = [], db_orders = [], db_seed = 0\<rparr>) = [Done (Some (HttpError 400 msg)), Done None]"
proof -
  have ni: "\<not> is_integral (17 / 2 :: rat)"
  proof
    assume "is_integral (17 / 2 :: rat)"
    then have "of_int \<lfloor>17 / 2 :: rat\<rfloor> = (17 / 2 :: rat)" by (simp add: is_integral_def)
    moreover have "\<lfloor>17 / 2 :: rat\<rfloor> = 8" by (simp add: floor_eq_iff)
    ultimately show False by simp
  qed
  show ?thesis
    using dish_price_rule [of "JObj [(''data'', JObj [(''name'', JStr ''Taco''), (''description'', JStr ''Spicy''),
                                    (''price'', JNum (17 / 2)), (''image_url'', JStr ''http://x'')])]"
        "JObj [(''name'', JStr ''Taco''), (''description'', JStr ''Spicy''),
               (''price'', JNum (17 / 2)), (''image_url'', JStr ''http://x'')]" PDishes "\<lparr>db_dishes = [], db_orders = [], db_seed = 0\<rparr>"] ni
    by (simp add: body_data_def)
qed

text \<open>
  C14. The data invariant (every stored dish passed the validators; identifiers unique
  within each array and fresh for the generator) is kept by every request to either
  dish route, whatever its method, path and body.
\<close>

theorem dish_routes_preserve_inv:
  assumes "dishes_inv s"
  shows "dishes_inv (snd (run_route dish_root_route r no_dish_locals s))
       \<and> dishes_inv (snd (run_route dish_item_route r no_dish_locals s))"
proof -
  obtain m p body where r: "r = \<lparr>r_method = m, r_path = p, r_body = body\<rparr>"
    by (cases r) simp
  show ?thesis
    unfolding r using assms by (simp add: dish_root_route_inv dish_item_route_inv)
qed

theorem dish_routes_preserve_inv_witness:
  "dishes_inv
     \<lparr>db_dishes = [\<lparr>dish_id = ''a'', dish_name = Some (JStr ''Taco''), dish_description = Some (JStr ''Spicy''),
                    dish_price = Some (JNum 8), dish_image_url = Some (JStr ''u'')\<rparr>],
      db_orders = [], db_seed = 0\<rparr>
   \<and> dishes_inv (snd (run_route dish_root_route
        \<lparr>r_method = POST, r_path = PDishes,
         r_body = JObj [(''data'', JObj [(''name'', JStr ''Pho''), (''description'', JStr ''Hot''),
                                       (''price'', JNum 12), (''image_url'', JStr ''v'')])]\<rparr>
        no_dish_locals
        \<lparr>db_dishes = [\<lparr>dish_id = ''a'', dish_name = Some (JStr ''Taco''), dish_description = Some (JStr ''Spicy''),
                       dish_price = Some (JNum 8), dish_image_url = Some (JStr ''u'')\<rparr>],
         db_orders = [], db_seed = 0\<rparr>))"
proof -
  have h: "dishes_inv
     \<lparr>db_dishes = [\<lparr>dish_id = ''a'', dish_name = Some (JStr ''Taco''), dish_description = Some (JStr ''Spicy''),
                    dish_price = Some (JNum 8), dish_image_url = Some (JStr ''u'')\<rparr>],
      db_orders = [], db_seed = 0\<rparr>"
    by code_simp
  show ?thesis
    using h dish_routes_preserve_inv [OF h] by simp
qed

text \<open>
  C29. Whatever request reaches \<open>/dishes/:dishId\<close>, the identifiers of the stored
  dishes (and their order), the orders and the identifier generator are unchanged: an
  update never overwrites an identifier with body content.
\<close>

theorem dish_item_route_frame:
  "map dish_id (db_dishes (snd (run_route dish_item_route r no_dish_locals s))) = map dish_id (db_dishes s)
   \<and> db_orders (snd (run_route dish_item_route r no_dish_locals s)) = db_orders s
   \<and> db_seed (snd (run_route dish_item_route r no_dish_locals s)) = db_seed s"
proof -
  obtain m p body where r: "r = \<lparr>r_method = m, r_path = p, r_body = body\<rparr>"
    by (cases r) simp
  show ?thesis
  proof (cases "dispatch_method m = PUT")
    case True
    then have m: "m = PUT" by (cases m) simp_all
    show ?thesis
      by (auto simp: r m dish_item_route_PUT Let_def map_update list_update_same_conv
          split: option.splits sum.splits)
  next
    case False
    then show ?thesis
      by (cases "dispatch_method m = GET")
        (simp_all add: r dish_item_route_GET dish_item_route_other Let_def split: option.splits)
  qed
qed

text \<open>
  C24. \<open>PUT /dishes/:dishId\<close> for an existing dish whose body carries a different,
  truthy \<open>id\<close> fails with the 400 mismatch error naming both identifiers, leaves the
  route once (this validator returns after \<open>next(error)\<close>) and changes nothing.
\<close>

theorem dish_update_id_mismatch:
  assumes "first_index (\<lambda>dish. dish_id dish = route_param p) (db_dishes s) = Some i"
    and "body_data body = Inr d" and "truthy (get_prop d ''id'')"
    and "get_prop d ''id'' \<noteq> Some (JStr (route_param p))"
  shows "run_route dish_item_route \<lparr>r_method = PUT, r_path = p, r_body = body\<rparr> no_dish_locals s =
         ([Done (Some (HttpError 400 [Lit ''Dish id does not match route id. Dish: '', Val (get_prop d ''id''),
                                      Lit '', Route: '', Lit (route_param p)]))], s)"
  using assms by (simp add: dish_item_route_PUT dish_id_mismatch_def Let_def)

theorem dish_update_id_mismatch_witness:
  "run_route dish_item_route \<lparr>r_method = PUT, r_path = PDish ''a'', r_body = JObj [(''data'', JObj [(''id'', JStr ''b''), (''name'', JStr ''Pho'')])]\<rparr>
     no_dish_locals \<lparr>db_dishes = [\<lparr>dish_id = ''a'', dish_name = Some (JStr ''Taco''), dish_description = Some (JStr ''Spicy''), dish_price = Some (JNum 8), dish_image_url = Some (JStr ''u'')\<rparr>], db_orders = [], db_seed = 0\<rparr> =
   ([Done (Some (HttpError 400 [Lit ''Dish id does not match route id. Dish: '', Val (Some (JStr ''b'')),
                                Lit '', Route: '', Lit ''a'']))], \<lparr>db_dishes = [\<lparr>dish_id = ''a'', dish_name = Some (JStr ''Taco''), dish_description = Some (JStr ''Spicy''), dish_price = Some (JNum 8), dish_image_url = Some (JStr ''u'')\<rparr>], db_orders = [], db_seed = 0\<rparr>)"
  using dish_update_id_mismatch [of "PDish ''a''" "\<lparr>db_dishes = [\<lparr>dish_id = ''a'', dish_name = Some (JStr ''Taco''), dish_description = Some (JStr ''Spicy''), dish_price = Some (JNum 8), dish_image_url = Some (JStr ''u'')\<rparr>], db_orders = [], db_seed = 0\<rparr>" 0 "JObj [(''data'', JObj [(''id'', JStr ''b''), (''name'', JStr ''Pho'')])]" "JObj [(''id'', JStr ''b''), (''name'', JStr ''Pho'')]"]
  by (simp add: body_data_def)

text \<open>
  C26. A successful \<open>POST /dishes\<close> appends exactly one dish, whose identifier is the one
  \<open>nextId\<close> mints, which no stored dish or order already has; identifiers stay unique
  and fresh.
\<close>

theorem dish_create_fresh_id:
  assumes "ids_ok s" and "body_data body = Inr d" and "validate_dish d = None"
  shows "db_dishes (snd (run_route dish_root_route \<lparr>r_method = POST, r_path = p, r_body = body\<rparr> no_dish_locals s))
           = db_dishes s @ [new_dish (fst (nextId s)) d]
       \<and> fst (nextId s) \<notin> set (all_ids s)
       \<and> ids_ok (snd (run_route dish_root_route \<lparr>r_method = POST, r_path = p, r_body = body\<rparr> no_dish_locals s))"
  using assms ids_ok_add_dish [of s d]
  by (simp add: dish_root_route_POST nextId_def ids_ok_def ids_fresh_fresh Let_def)

theorem dish_create_fresh_id_witness:
  "db_dishes (snd (run_route dish_root_route \<lparr>r_method = POST, r_path = PDishes, r_body = JObj [(''data'', JObj [(''name'', JStr ''Pho''), (''description'', JStr ''Hot''), (''price'', JNum 12), (''image_url'', JStr ''v'')])]\<rparr>
      no_dish_locals \<lparr>db_dishes = [\<lparr>dish_id = ''a'', dish_name = Some (JStr ''Taco''), dish_description = Some (JStr ''Spicy''), dish_price = Some (JNum 8), dish_image_url = Some (JStr ''u'')\<rparr>], db_orders = [], db_seed = 0\<rparr>))
     = [\<lparr>dish_id = ''a'', dish_name = Some (JStr ''Taco''), dish_description = Some (JStr ''Spicy''), dish_price = Some (JNum 8), dish_image_url = Some (JStr ''u'')\<rparr>, new_dish ''0'' (JObj [(''name'', JStr ''Pho''), (''description'', JStr ''Hot''), (''price'', JNum 12), (''image_url'', JStr ''v'')])]
   \<and> ''0'' \<notin> set (all_ids \<lparr>db_dishes = [\<lparr>dish_id = ''a'', dish_name = Some (JStr ''Taco''), dish_description = Some (JStr ''Spicy''), dish_price = Some (JNum 8), dish_image_url = Some (JStr ''u'')\<rparr>], db_orders = [], db_seed = 0\<rparr>)"
proof -
  have h: "ids_ok \<lparr>db_dishes = [\<lparr>dish_id = ''a'', dish_name = Some (JStr ''Taco''), dish_description = Some (JStr ''Spicy''), dish_price = Some (JNum 8), dish_image_url = Some (JStr ''u'')\<rparr>], db_orders = [], db_seed = 0\<rparr>" by code_simp
  have e: "fst (nextId \<lparr>db_dishes = [\<lparr>dish_id = ''a'', dish_name = Some (JStr ''Taco''), dish_description = Some (JStr ''Spicy''), dish_price = Some (JNum 8), dish_image_url = Some (JStr ''u'')\<rparr>], db_orders = [], db_seed = 0\<rparr>) = ''0''" by code_simp
  show ?thesis
    using dish_create_fresh_id [OF h, of "JObj [(''data'', JObj [(''name'', JStr ''Pho''), (''description'', JStr ''Hot''), (''price'', JNum 12), (''image_url'', JStr ''v'')])]" "JObj [(''name'', JStr ''Pho''), (''description'', JStr ''Hot''), (''price'', JNum 12), (''image_url'', JStr ''v'')]" PDishes]
    by (simp add: e body_data_def validate_dish_def require_truthy_def)
qed

end
