(* ===== verification/Orders.thy ===== *)
theory Orders
  imports Store
begin

text \<open>
  \<open>src/orders/orders.controller.js\<close> and \<open>src/orders/orders.router.js\<close>: the
  validators and handlers of the orders resource, the exported stacks, and the two routes
  of the router. \<open>response.locals\<close> is the record \<open>order_locals\<close>; the order found by
  \<open>orderExists\<close> is kept as its position in the array.
\<close>

section \<open>Locals\<close>

record order_locals =
  lo_order :: "nat option"
  lo_deliverTo :: jsval
  lo_mobileNumber :: jsval
  lo_dishes :: jsval
  lo_status :: jsval

definition no_order_locals :: order_locals where
  "no_order_locals =
     \<lparr>lo_order = None, lo_deliverTo = None, lo_mobileNumber = None, lo_dishes = None, lo_status = None\<rparr>"

type_synonym order_handler = "(order_locals, db) handler"

section \<open>Validation\<close>

definition orderExists :: order_handler where
  "orderExists r l s =
     (let orderId = route_param (r_path r) in
      case first_index (\<lambda>order. order_id order = orderId) (db_orders s) of
        Some i \<Rightarrow> [SetLocals (\<lambda>l. l\<lparr>lo_order := Some i\<rparr>), CallNext]
      | None \<Rightarrow> [CallNextErr (HttpError 404 [Lit ''Order id '', Lit orderId, Lit '' does not exist''])])"

definition orderRequiresDeliverTo :: order_handler where
  "orderRequiresDeliverTo =
     field_check ''deliverTo'' ''Order must include a deliverTo'' (\<lambda>v l. l\<lparr>lo_deliverTo := v\<rparr>)"

definition orderRequiresMobileNumber :: order_handler where
  "orderRequiresMobileNumber =
     field_check ''mobileNumber'' ''Order must include a mobileNumber'' (\<lambda>v l. l\<lparr>lo_mobileNumber := v\<rparr>)"

definition orderRequiresDish :: order_handler where
  "orderRequiresDish r l s =
     (case body_data (r_body r) of
        Inl e \<Rightarrow> [CallNextErr e]
      | Inr d \<Rightarrow>
          let dishes = get_prop d ''dishes'' in
          (if \<not> truthy dishes then [CallNextErr (HttpError 400 [Lit ''Order must include a dish''])] else [])
          @ [SetLocals (\<lambda>l. l\<lparr>lo_dishes := dishes\<rparr>), CallNext])"

text \<open>
  \<open>dishes = response.locals.dishes\<close> assigns an undeclared (global) variable; nothing
  reads it, so the model keeps only the test, which returns after \<open>next(error)\<close>.
\<close>

definition nonempty_dishes_error :: js_error where
  "nonempty_dishes_error = HttpError 400 [Lit ''Order must include at least one dish'']"

definition dishesMustBeNonEmptyArray :: order_handler where
  "dishesMustBeNonEmptyArray r l s =
     (case lo_dishes l of
        Some (JArr xs) \<Rightarrow> (if xs = [] then [CallNextErr nonempty_dishes_error] else [CallNext])
      | _ \<Rightarrow> [CallNextErr nonempty_dishes_error])"

definition quantity_error :: "nat \<Rightarrow> js_error" where
  "quantity_error i =
     HttpError 400 [Lit ''Dish '', Lit (digits_of i), Lit '' must have a quantity that is an integer greater than 0'']"

text \<open>
  The \<open>for\<close> loop of \<open>eachDishMustHaveQuantityAboveZero\<close> from position \<open>i\<close>: reading
  \<open>dishes[i].quantity\<close> throws on a \<open>null\<close> line item; the first bad quantity returns
  \<open>next(error)\<close>; after the loop, \<open>next()\<close>.
\<close>

fun quantity_loop :: "nat \<Rightarrow> jval list \<Rightarrow> (order_locals, db) action list" where
  "quantity_loop i [] = [CallNext]"
| "quantity_loop i (x # xs) =
     (case js_member (Some x) ''quantity'' of
        Inl e \<Rightarrow> [CallNextErr e]
      | Inr q \<Rightarrow>
          if falsy_or_not_positive_integer q then [CallNextErr (quantity_error i)]
          else quantity_loop (Suc i) xs)"

text \<open>
  \<open>dishes.length\<close> throws on \<open>undefined\<close> and \<open>null\<close>; a string's characters have no
  \<open>quantity\<close>; on numbers and booleans \<open>length\<close> is \<open>undefined\<close> and the loop does not
  run. Objects are treated like numbers, which is exact for an object without a \<open>length\<close>
  key; in the routes only a non-empty array reaches this validator, because
  \<open>dishesMustBeNonEmptyArray\<close> returns \<open>next(error)\<close> before it otherwise.
\<close>

definition eachDishMustHaveQuantityAboveZero :: order_handler where
  "eachDishMustHaveQuantityAboveZero r l s =
     (case lo_dishes l of
        None \<Rightarrow> [CallNextErr (TypeError ''Cannot read properties of undefined (reading length)'')]
      | Some JNull \<Rightarrow> [CallNextErr (TypeError ''Cannot read properties of null (reading length)'')]
      | Some (JArr xs) \<Rightarrow> quantity_loop 0 xs
      | Some (JStr cs) \<Rightarrow> (if cs = [] then [CallNext] else [CallNextErr (quantity_error 0)])
      | Some _ \<Rightarrow> [CallNext])"

definition orderIdAbsentOrMatches :: order_handler where
  "orderIdAbsentOrMatches r l s =
     (case body_data (r_body r) of
        Inl e \<Rightarrow> [CallNextErr e]
      | Inr d \<Rightarrow>
          let bodyId = get_prop d ''id''; orderId = route_param (r_path r) in
          if \<not> truthy bodyId \<or> bodyId = Some (JStr orderId) then [CallNext]
          else [CallNextErr (HttpError 400
                  [Lit ''Order id does not match route id. Order: '', Val bodyId, Lit '', Route: '', Lit orderId])])"

definition status_valid :: "jsval \<Rightarrow> bool" where
  "status_valid status \<longleftrightarrow>
     truthy status \<and> (status = Some (JStr ''pending'') \<or> status = Some (JStr ''preparing'')
       \<or> status = Some (JStr ''out-for-delivery'') \<or> status = Some (JStr ''delivered''))"

definition status_error :: js_error where
  "status_error =
     HttpError 400 [Lit ''Order must have a status of pending, preparing, out-for-delivery, delivered'']"

text \<open>
  With a valid status the validator stores it and calls \<open>next()\<close> (running the rest of
  the stack), then falls through to \<open>next(error)\<close>; otherwise only \<open>next(error)\<close>.
\<close>

definition statusMustExistAndBeValid :: order_handler where
  "statusMustExistAndBeValid r l s =
     (case body_data (r_body r) of
        Inl e \<Rightarrow> [CallNextErr e]
      | Inr d \<Rightarrow>
          let status = get_prop d ''status'' in
          (if status_valid status then [SetLocals (\<lambda>l. l\<lparr>lo_status := status\<rparr>), CallNext] else [])
          @ [CallNextErr status_error])"

definition not_pending_error :: js_error where
  "not_pending_error = HttpError 400 [Lit ''An order cannot be deleted unless it is pending'']"

definition orderStatusIsPending :: order_handler where
  "orderStatusIsPending r l s =
     (case lo_order l of
        None \<Rightarrow> [CallNextErr (TypeError ''Cannot read properties of undefined (reading status)'')]
      | Some i \<Rightarrow>
          (if order_status (db_orders s ! i) = Some (JStr ''pending'') then [CallNext] else [])
          @ [CallNextErr not_pending_error])"

section \<open>Handlers\<close>

text \<open>\<open>const { status = "pending" } = request.body\<close>: the default applies to \<open>undefined\<close> only.\<close>

definition create_status :: "jval \<Rightarrow> jsval" where
  "create_status body = (case get_prop body ''status'' of None \<Rightarrow> Some (JStr ''pending'') | Some v \<Rightarrow> Some v)"

definition new_order :: "string \<Rightarrow> order_locals \<Rightarrow> jsval \<Rightarrow> order" where
  "new_order nid l status =
     \<lparr>order_id = nid, order_deliverTo = lo_deliverTo l, order_mobileNumber = lo_mobileNumber l,
      order_status = status, order_dishes = lo_dishes l\<rparr>"

definition orders_create :: order_handler where
  "orders_create r l s =
     (let status = create_status (r_body r); newId = fst (nextId s);
          newOrder = new_order newId l status in
      [SetStore (\<lambda>s. snd (nextId s)),
       SetStore (\<lambda>s. s\<lparr>db_orders := db_orders s @ [newOrder]\<rparr>),
       Send (JsonResp 201 (js_object [(''data'', Some (order_json newOrder))]))])"

definition orders_read :: order_handler where
  "orders_read r l s =
     [Send (JsonResp 200 (js_object [(''data'', map_option (\<lambda>i. order_json (db_orders s ! i)) (lo_order l))]))]"

text \<open>
  \<open>const { data: { ... } = {} } = request.body\<close>: the default applies to \<open>undefined\<close>;
  \<open>null\<close> throws. The fields are written from the body, not from \<open>response.locals\<close>.
\<close>

definition update_data :: "jval \<Rightarrow> js_error + jval" where
  "update_data body = (case get_prop body ''data'' of None \<Rightarrow> Inr (JObj []) | v \<Rightarrow> destructure v)"

definition updated_order :: "order \<Rightarrow> jval \<Rightarrow> order" where
  "updated_order order d =
     order\<lparr>order_deliverTo := get_prop d ''deliverTo'', order_mobileNumber := get_prop d ''mobileNumber'',
           order_status := get_prop d ''status'', order_dishes := get_prop d ''dishes''\<rparr>"

definition orders_update :: order_handler where
  "orders_update r l s =
     (case update_data (r_body r) of
        Inl e \<Rightarrow> [CallNextErr e]
      | Inr d \<Rightarrow>
          (case lo_order l of
             None \<Rightarrow> [CallNextErr (TypeError ''Cannot set properties of undefined (setting deliverTo)'')]
           | Some i \<Rightarrow>
               let order = updated_order (db_orders s ! i) d in
               [SetStore (\<lambda>s. s\<lparr>db_orders := (db_orders s)[i := order]\<rparr>),
                Send (JsonResp 200 (js_object [(''data'', Some (order_json order))]))]))"

definition orders_destroy :: order_handler where
  "orders_destroy r l s =
     (let orderId = route_param (r_path r);
          index = js_find_index (\<lambda>order. order_id order = orderId) (db_orders s) in
      [SetStore (\<lambda>s. s\<lparr>db_orders := js_splice_one index (db_orders s)\<rparr>), Send (StatusResp 204)])"

definition orders_list :: order_handler where
  "orders_list r l s =
     [Send (JsonResp 200 (js_object [(''data'', Some (JArr (map order_json (db_orders s))))]))]"

section \<open>Exported stacks and routes\<close>

definition orders_create_stack :: "order_handler list" where
  "orders_create_stack =
     [orderRequiresDeliverTo, orderRequiresMobileNumber, orderRequiresDish, dishesMustBeNonEmptyArray,
      eachDishMustHaveQuantityAboveZero, orders_create]"

definition orders_read_stack :: "order_handler list" where
  "orders_read_stack = [orderExists, orders_read]"

definition orders_update_stack :: "order_handler list" where
  "orders_update_stack =
     [orderExists, statusMustExistAndBeValid, orderIdAbsentOrMatches, orderRequiresDeliverTo,
      orderRequiresMobileNumber, orderRequiresDish, dishesMustBeNonEmptyArray,
      eachDishMustHaveQuantityAboveZero, orders_update]"

definition orders_delete_stack :: "order_handler list" where
  "orders_delete_stack = [orderExists, orderStatusIsPending, orders_destroy]"

text \<open>\<open>router.route("/:orderId").get(read).put(update).delete(delete).all(methodNotAllowed)\<close>.\<close>

definition order_item_route :: "(order_locals, db) layer list" where
  "order_item_route =
     route_stack [(GET, orders_read_stack), (PUT, orders_update_stack), (DELETE, orders_delete_stack)]
       methodNotAllowed"

text \<open>\<open>router.route("/").post(create).get(list).all(methodNotAllowed)\<close>.\<close>

definition order_root_route :: "(order_locals, db) layer list" where
  "order_root_route = route_stack [(POST, orders_create_stack), (GET, [orders_list])] methodNotAllowed"

section \<open>Specification of the routes\<close>

text \<open>
  The line-item check as the specification states it: the first line item that is
  \<open>null\<close> or whose quantity is not a positive integer decides; a \<open>null\<close> item makes
  the code throw (a 500, not the specified 400).
\<close>

definition bad_line_item :: "jval \<Rightarrow> bool" where
  "bad_line_item x \<longleftrightarrow> x = JNull \<or> \<not> positive_integer (get_prop x ''quantity'')"

definition line_items_error :: "nat \<Rightarrow> jval list \<Rightarrow> js_error option" where
  "line_items_error i xs =
     map_option (\<lambda>j. if xs ! j = JNull then TypeError ''Cannot read properties of null (reading quantity)''
                     else quantity_error (i + j))
       (first_index bad_line_item xs)"

text \<open>The checks that fail twice (fall-through validators) and those that return.\<close>

definition order_fields_error :: "jval \<Rightarrow> js_error option" where
  "order_fields_error d = first_failure
     [require_truthy d ''deliverTo'' ''Order must include a deliverTo'',
      require_truthy d ''mobileNumber'' ''Order must include a mobileNumber'',
      require_truthy d ''dishes'' ''Order must include a dish'']"

definition order_dishes_error :: "jval \<Rightarrow> js_error option" where
  "order_dishes_error d =
     (case get_prop d ''dishes'' of
        Some (JArr xs) \<Rightarrow> (if xs = [] then Some nonempty_dishes_error else line_items_error 0 xs)
      | _ \<Rightarrow> Some nonempty_dishes_error)"

definition validate_order :: "jval \<Rightarrow> js_error option" where
  "validate_order d = first_failure [order_fields_error d, order_dishes_error d]"

definition order_of_data :: "string \<Rightarrow> jval \<Rightarrow> jsval \<Rightarrow> order" where
  "order_of_data nid d status =
     \<lparr>order_id = nid, order_deliverTo = get_prop d ''deliverTo'', order_mobileNumber = get_prop d ''mobileNumber'',
      order_status = status, order_dishes = get_prop d ''dishes''\<rparr>"

definition order_not_found :: "string \<Rightarrow> js_error" where
  "order_not_found orderId = HttpError 404 [Lit ''Order id '', Lit orderId, Lit '' does not exist'']"

definition order_id_mismatch :: "jval \<Rightarrow> string \<Rightarrow> js_error option" where
  "order_id_mismatch d orderId =
     (let bodyId = get_prop d ''id'' in
      if \<not> truthy bodyId \<or> bodyId = Some (JStr orderId) then None
      else Some (HttpError 400
        [Lit ''Order id does not match route id. Order: '', Val bodyId, Lit '', Route: '', Lit orderId]))"

definition order_create_spec :: "jval \<Rightarrow> db \<Rightarrow> event \<times> db" where
  "order_create_spec body s =
     (case body_data body of
        Inl e \<Rightarrow> (Done (Some e), s)
      | Inr d \<Rightarrow>
          (case validate_order d of
             Some e \<Rightarrow> (Done (Some e), s)
           | None \<Rightarrow>
               let order = order_of_data (digits_of (db_seed s)) d (create_status body) in
               (Sent (JsonResp 201 (js_object [(''data'', Some (order_json order))])),
                s\<lparr>db_orders := db_orders s @ [order], db_seed := Suc (db_seed s)\<rparr>)))"

text \<open>
  The update contract the code implements (the status is required, unlike the
  specification's "if supplied"): 404, then the status, the body's \<open>id\<close>, the order
  checks; on success the four fields replaced in place and a 200.
\<close>

definition order_update_spec :: "string \<Rightarrow> jval \<Rightarrow> db \<Rightarrow> event \<times> db" where
  "order_update_spec orderId body s =
     (case first_index (\<lambda>order. order_id order = orderId) (db_orders s) of
        None \<Rightarrow> (Done (Some (order_not_found orderId)), s)
      | Some i \<Rightarrow>
          (case body_data body of
             Inl e \<Rightarrow> (Done (Some e), s)
           | Inr d \<Rightarrow>
               (case first_failure
                       [if status_valid (get_prop d ''status'') then None else Some status_error,
                        order_id_mismatch d orderId, validate_order d] of
                  Some e \<Rightarrow> (Done (Some e), s)
                | None \<Rightarrow>
                    let order = updated_order (db_orders s ! i) d in
                    (Sent (JsonResp 200 (js_object [(''data'', Some (order_json order))])),
                     s\<lparr>db_orders := (db_orders s)[i := order]\<rparr>))))"

text \<open>
  The order invariant of the specification (section 3): address and number present, a
  non-empty array of line items with positive integer quantities, and a status among
  the four values.
\<close>

definition order_ok :: "order \<Rightarrow> bool" where
  "order_ok order \<longleftrightarrow> truthy (order_deliverTo order) \<and> truthy (order_mobileNumber order)
     \<and> (case order_dishes order of
          Some (JArr xs) \<Rightarrow> xs \<noteq> [] \<and> list_all (\<lambda>x. \<not> bad_line_item x) xs
        | _ \<Rightarrow> False)
     \<and> status_valid (order_status order)"

definition orders_inv :: "db \<Rightarrow> bool" where
  "orders_inv s \<longleftrightarrow> ids_ok s \<and> list_all order_ok (db_orders s)"

section \<open>Sample data for the witnesses\<close>

abbreviation sample_order :: order where
  "sample_order \<equiv>
     \<lparr>order_id = ''o1'', order_deliverTo = Some (JStr ''Rick''), order_mobileNumber = Some (JStr ''555''),
      order_status = Some (JStr ''pending''), order_dishes = Some (JArr [JObj [(''quantity'', JNum 1)]])\<rparr>"

abbreviation sample_orders_db :: db where
  "sample_orders_db \<equiv> \<lparr>db_dishes = [], db_orders = [sample_order], db_seed = 0\<rparr>"

abbreviation sample_update_data :: jval where
  "sample_update_data \<equiv>
     JObj [(''deliverTo'', JStr ''Morty''), (''mobileNumber'', JStr ''556''), (''status'', JStr ''delivered''),
           (''dishes'', JArr [JObj [(''quantity'', JNum 2)]])]"

section \<open>The quantity loop\<close>

lemma quantity_loop_first_bad:
  "quantity_loop i xs = (case line_items_error i xs of None \<Rightarrow> [CallNext] | Some e \<Rightarrow> [CallNextErr e])"
proof (induction xs arbitrary: i)
  case Nil
  then show ?case by (simp add: line_items_error_def)
next
  case (Cons x xs)
  show ?case
  proof (cases "x = JNull")
    case True
    then show ?thesis by (simp add: line_items_error_def bad_line_item_def)
  next
    case False
    then have mem: "js_member (Some x) ''quantity'' = Inr (get_prop x ''quantity'')"
      by (cases x) simp_all
    show ?thesis
    proof (cases "positive_integer (get_prop x ''quantity'')")
      case True
      have "line_items_error i (x # xs) =
          map_option (\<lambda>j. if xs ! j = JNull then TypeError ''Cannot read properties of null (reading quantity)''
                          else quantity_error (i + Suc j)) (first_index bad_line_item xs)"
        using False True
        by (simp add: line_items_error_def bad_line_item_def option.map_comp comp_def)
      also have "\<dots> = line_items_error (Suc i) xs"
        unfolding line_items_error_def by (rule option.map_cong0) simp
      finally have "line_items_error i (x # xs) = line_items_error (Suc i) xs" .
      with False True mem Cons.IH show ?thesis
        by (simp add: falsy_or_not_positive_integer_iff)
    next
      case nonpos: False
      with False mem show ?thesis
        by (simp add: line_items_error_def bad_line_item_def falsy_or_not_positive_integer_iff)
    qed
  qed
qed

section \<open>Symbolic execution of the routes\<close>

lemmas order_handler_defs = orderExists_def orderRequiresDeliverTo_def orderRequiresMobileNumber_def
  orderRequiresDish_def dishesMustBeNonEmptyArray_def eachDishMustHaveQuantityAboveZero_def
  orderIdAbsentOrMatches_def statusMustExistAndBeValid_def orderStatusIsPending_def field_check_def
  orders_create_def orders_read_def orders_update_def orders_destroy_def orders_list_def
  methodNotAllowed_def new_order_def

lemmas order_route_defs = run_route_def route_dispatch_def order_root_route_def order_item_route_def
  route_stack_def orders_create_stack_def orders_read_stack_def orders_update_stack_def
  orders_delete_stack_def no_order_locals_def

lemmas order_spec_defs = order_fields_error_def order_dishes_error_def require_truthy_def
  order_of_data_def order_not_found_def order_id_mismatch_def

lemma order_root_route_POST:
  "run_route order_root_route \<lparr>r_method = POST, r_path = p, r_body = body\<rparr> no_order_locals s =
     (case body_data body of
        Inl e \<Rightarrow> ([Done (Some e)], s)
      | Inr d \<Rightarrow>
          (case order_fields_error d of
             Some e \<Rightarrow> ([Done (Some e), Done None], s)
           | None \<Rightarrow>
               (case order_dishes_error d of
                  Some e \<Rightarrow> ([Done (Some e)], s)
                | None \<Rightarrow>
                    let order = order_of_data (digits_of (db_seed s)) d (create_status body) in
                    ([Sent (JsonResp 201 (js_object [(''data'', Some (order_json order))]))],
                     s\<lparr>db_orders := db_orders s @ [order], db_seed := Suc (db_seed s)\<rparr>))))"
proof (cases "body_data body")
  case (Inl e)
  then show ?thesis by (simp add: order_route_defs express_simps nth_Cons' order_handler_defs)
next
  case (Inr d)
  then show ?thesis
    by (simp add: order_route_defs express_simps nth_Cons' order_handler_defs order_spec_defs Let_def
        nextId_def quantity_loop_first_bad split: option.splits jval.splits)
qed

lemma update_data_body_data: "body_data body = Inr d \<Longrightarrow> update_data body = Inr d"
  by (cases "get_prop body ''data''") (auto simp: body_data_def update_data_def destructure_Inr_iff)

lemma order_root_route_GET:
  assumes "dispatch_method m = GET"
  shows "run_route order_root_route \<lparr>r_method = m, r_path = p, r_body = body\<rparr> no_order_locals s =
     ([Sent (JsonResp 200 (js_object [(''data'', Some (JArr (map order_json (db_orders s))))]))], s)"
  using assms by (simp add: order_route_defs express_simps nth_Cons' order_handler_defs)

lemma order_root_route_other:
  assumes "dispatch_method m \<notin> {POST, GET}"
  shows "run_route order_root_route \<lparr>r_method = m, r_path = p, r_body = body\<rparr> no_order_locals s =
     ([Done (Some (HttpError 405 [Lit (method_name m), Lit '' not allowed for '', Lit (original_url p)]))], s)"
  using assms by (simp add: order_route_defs express_simps nth_Cons' order_handler_defs)

lemma order_item_route_GET:
  assumes "dispatch_method m = GET"
  shows "run_route order_item_route \<lparr>r_method = m, r_path = p, r_body = body\<rparr> no_order_locals s =
     (let orderId = route_param p in
      case first_index (\<lambda>order. order_id order = orderId) (db_orders s) of
        None \<Rightarrow> ([Done (Some (order_not_found orderId))], s)
      | Some i \<Rightarrow> ([Sent (JsonResp 200 (js_object [(''data'', Some (order_json (db_orders s ! i)))]))], s))"
  using assms
  by (cases "first_index (\<lambda>order. order_id order = route_param p) (db_orders s)")
    (simp_all add: order_route_defs express_simps nth_Cons' order_handler_defs order_spec_defs)

lemma order_item_route_other:
  assumes "dispatch_method m \<notin> {GET, PUT, DELETE}"
  shows "run_route order_item_route \<lparr>r_method = m, r_path = p, r_body = body\<rparr> no_order_locals s =
     ([Done (Some (HttpError 405 [Lit (method_name m), Lit '' not allowed for '', Lit (original_url p)]))], s)"
  using assms by (simp add: order_route_defs express_simps nth_Cons' order_handler_defs)

lemma order_item_route_DELETE:
  "run_route order_item_route \<lparr>r_method = DELETE, r_path = p, r_body = body\<rparr> no_order_locals s =
     (let orderId = route_param p in
      case first_index (\<lambda>order. order_id order = orderId) (db_orders s) of
        None \<Rightarrow> ([Done (Some (order_not_found orderId))], s)
      | Some i \<Rightarrow>
          if order_status (db_orders s ! i) = Some (JStr ''pending'')
          then ([Sent (StatusResp 204), Done (Some not_pending_error)],
                s\<lparr>db_orders := take i (db_orders s) @ drop (Suc i) (db_orders s)\<rparr>)
          else ([Done (Some not_pending_error)], s))"
  by (cases "first_index (\<lambda>order. order_id order = route_param p) (db_orders s)")
    (simp_all add: order_route_defs express_simps nth_Cons' order_handler_defs order_spec_defs)

lemma order_item_route_PUT:
  "run_route order_item_route \<lparr>r_method = PUT, r_path = p, r_body = body\<rparr> no_order_locals s =
     (let orderId = route_param p in
      case first_index (\<lambda>order. order_id order = orderId) (db_orders s) of
        None \<Rightarrow> ([Done (Some (order_not_found orderId))], s)
      | Some i \<Rightarrow>
          (case body_data body of
             Inl e \<Rightarrow> ([Done (Some e)], s)
           | Inr d \<Rightarrow>
               if \<not> status_valid (get_prop d ''status'') then ([Done (Some status_error)], s)
               else
                 (case order_id_mismatch d orderId of
                    Some e \<Rightarrow> ([Done (Some e), Done (Some status_error)], s)
                  | None \<Rightarrow>
                      (case order_fields_error d of
                         Some e \<Rightarrow> ([Done (Some e), Done None, Done (Some status_error)], s)
                       | None \<Rightarrow>
                           (case order_dishes_error d of
                              Some e \<Rightarrow> ([Done (Some e), Done (Some status_error)], s)
                            | None \<Rightarrow>
                                let order = updated_order (db_orders s ! i) d in
                                ([Sent (JsonResp 200 (js_object [(''data'', Some (order_json order))])),
                                  Done (Some status_error)],
                                 s\<lparr>db_orders := (db_orders s)[i := order]\<rparr>))))))"
proof (cases "first_index (\<lambda>order. order_id order = route_param p) (db_orders s)")
  case None
  then show ?thesis by (simp add: order_route_defs express_simps nth_Cons' order_handler_defs order_spec_defs)
next
  case (Some i)
  show ?thesis
  proof (cases "body_data body")
    case (Inl e)
    with Some show ?thesis
      by (simp add: order_route_defs express_simps nth_Cons' order_handler_defs order_spec_defs)
  next
    case (Inr d)
    with Some update_data_body_data [OF Inr] show ?thesis
      by (simp add: order_route_defs express_simps nth_Cons' order_handler_defs order_spec_defs Let_def
          quantity_loop_first_bad split: option.splits jval.splits)
  qed
qed

section \<open>Validation and the invariant\<close>

lemma order_dishes_error_None_iff:
  "order_dishes_error d = None \<longleftrightarrow>
     (\<exists>xs. get_prop d ''dishes'' = Some (JArr xs) \<and> xs \<noteq> [] \<and> list_all (\<lambda>x. \<not> bad_line_item x) xs)"
  by (auto simp: order_dishes_error_def line_items_error_def first_index_None_iff list_all_iff
      split: option.splits jval.splits)

lemma order_ok_of_data:
  "validate_order d = None \<Longrightarrow> status_valid status \<Longrightarrow> order_ok (order_of_data nid d status)"
  by (auto simp: validate_order_def order_fields_error_def require_truthy_def order_dishes_error_None_iff
      order_ok_def order_of_data_def split: if_splits)

lemma order_ok_updated:
  "validate_order d = None \<Longrightarrow> status_valid (get_prop d ''status'') \<Longrightarrow> order_ok (updated_order order d)"
  by (auto simp: validate_order_def order_fields_error_def require_truthy_def order_dishes_error_None_iff
      order_ok_def updated_order_def split: if_splits)

lemma order_id_updated [simp]: "order_id (updated_order order d) = order_id order"
  by (simp add: updated_order_def)

lemma ids_ok_add_order:
  assumes "ids_ok s"
  shows "ids_ok (s\<lparr>db_orders := db_orders s @ [order_of_data (digits_of (db_seed s)) d st], db_seed := Suc (db_seed s)\<rparr>)"
proof -
  have "digits_of (db_seed s) \<notin> set (all_ids s)"
    using assms by (simp add: ids_ok_def ids_fresh_fresh)
  then have "digits_of (db_seed s) \<notin> order_id ` set (db_orders s)"
    by (simp add: all_ids_def)
  with assms show ?thesis
    by (auto simp: ids_ok_def order_of_data_def all_ids_def intro: ids_fresh_add)
qed

lemma ids_ok_update_order:
  assumes "ids_ok s" and "i < length (db_orders s)" and "order_id x = order_id (db_orders s ! i)"
  shows "ids_ok (s\<lparr>db_orders := (db_orders s)[i := x]\<rparr>)"
proof -
  have "map order_id ((db_orders s)[i := x]) = map order_id (db_orders s)"
    using assms(2,3) by (simp add: map_update list_update_same_conv)
  with assms(1) show ?thesis by (simp add: ids_ok_def all_ids_def)
qed

lemma ids_ok_remove_order:
  fixes i :: nat
  assumes "ids_ok s"
  defines "s' \<equiv> s\<lparr>db_orders := take i (db_orders s) @ drop (Suc i) (db_orders s)\<rparr>"
  shows "ids_ok s'"
proof -
  have "set (take i (db_orders s) @ drop (Suc i) (db_orders s)) \<subseteq> set (db_orders s)"
    by (rule set_remove_subset)
  then have sub: "set (all_ids s') \<subseteq> set (all_ids s)"
    by (auto simp: all_ids_def s'_def)
  have fresh: "ids_fresh (all_ids s') (db_seed s')"
    using assms sub by (auto simp: ids_ok_def s'_def intro: ids_fresh_mono)
  have o: "db_orders s' = take i (db_orders s) @ drop (Suc i) (db_orders s)"
    by (simp add: s'_def)
  have "distinct (map order_id (db_orders s'))"
    unfolding o using assms by (intro distinct_map_remove) (simp add: ids_ok_def)
  moreover have "distinct (map dish_id (db_dishes s'))"
    using assms by (simp add: ids_ok_def s'_def)
  ultimately show ?thesis
    using fresh by (simp only: ids_ok_def)
qed

lemma order_item_route_inv:
  assumes "orders_inv s"
  shows "orders_inv (snd (run_route order_item_route \<lparr>r_method = m, r_path = p, r_body = body\<rparr> no_order_locals s))"
proof (cases "dispatch_method m \<in> {PUT, DELETE}")
  case True
  then consider "m = PUT" | "m = DELETE" by (cases m) simp_all
  then show ?thesis
  proof cases
    case 1
    have upd: "orders_inv (s\<lparr>db_orders := (db_orders s)[i := updated_order (db_orders s ! i) d]\<rparr>)"
      if "first_index (\<lambda>order. order_id order = route_param p) (db_orders s) = Some i"
        "validate_order d = None" "status_valid (get_prop d ''status'')" for i d
    proof -
      from that(1) have i: "i < length (db_orders s)" by blast
      with assms that(2,3) show ?thesis
        by (auto simp: orders_inv_def list_all_length nth_list_update intro: ids_ok_update_order order_ok_updated)
    qed
    show ?thesis
      using assms upd
      by (auto simp: 1 order_item_route_PUT validate_order_def Let_def split: sum.splits option.splits)
  next
    case 2
    have "list_all order_ok (take i (db_orders s) @ drop (Suc i) (db_orders s))" for i
      using assms by (auto simp: orders_inv_def list_all_iff dest: in_set_takeD in_set_dropD)
    with assms show ?thesis
      by (auto simp: 2 order_item_route_DELETE orders_inv_def ids_ok_remove_order Let_def split: option.splits)
  qed
next
  case False
  with assms show ?thesis
    by (cases "dispatch_method m = GET")
      (simp_all add: order_item_route_GET order_item_route_other Let_def split: option.splits)
qed

lemma order_root_route_inv:
  assumes "orders_inv s" and "status_valid (create_status body)"
  shows "orders_inv (snd (run_route order_root_route \<lparr>r_method = m, r_path = p, r_body = body\<rparr> no_order_locals s))"
proof (cases "dispatch_method m = POST")
  case True
  then have m: "m = POST" by (cases m) simp_all
  have "orders_inv (s\<lparr>db_orders := db_orders s @ [order_of_data (digits_of (db_seed s)) d (create_status body)],
                      db_seed := Suc (db_seed s)\<rparr>)"
    if "order_fields_error d = None" "order_dishes_error d = None" for d
    using assms that ids_ok_add_order [of s d "create_status body"]
    by (simp add: orders_inv_def order_ok_of_data validate_order_def)
  then show ?thesis
    using assms by (auto simp: m order_root_route_POST Let_def split: sum.splits option.splits)
next
  case False
  with assms show ?thesis
    by (cases "dispatch_method m = GET") (simp_all add: order_root_route_GET order_root_route_other)
qed

section \<open>Properties of the orders routes\<close>

text \<open>
  C4. \<open>POST /orders\<close> implements the creation contract \<open>order_create_spec\<close>: its first
  event and final store are a \<open>TypeError\<close> without \<open>data\<close>, the first failing check of
  the order pipeline (fields, non-empty \<open>dishes\<close>, line items), or a 201 with the new
  order appended under a freshly minted identifier.
\<close>

theorem order_create_refines:
  "(hd (fst (run_route order_root_route \<lparr>r_method = POST, r_path = p, r_body = body\<rparr> no_order_locals s)),
    snd (run_route order_root_route \<lparr>r_method = POST, r_path = p, r_body = body\<rparr> no_order_locals s))
   = order_create_spec body s"
  by (simp add: order_root_route_POST order_create_spec_def validate_order_def Let_def
      split: sum.splits option.splits)

text \<open>
  C5. \<open>PUT /orders/:orderId\<close> implements the update contract \<open>order_update_spec\<close>
  as its first event and final store: 404, then a required valid status, the body's
  \<open>id\<close>, the order checks, and on success the order's fields replaced in place.
\<close>

theorem order_update_refines:
  "(hd (fst (run_route order_item_route \<lparr>r_method = PUT, r_path = p, r_body = body\<rparr> no_order_locals s)),
    snd (run_route order_item_route \<lparr>r_method = PUT, r_path = p, r_body = body\<rparr> no_order_locals s))
   = order_update_spec (route_param p) body s"
  by (simp add: order_item_route_PUT order_update_spec_def validate_order_def Let_def
      split: sum.splits option.splits)

text \<open>
  C9. A successful order update sends the 200 with the updated order, and then the
  status validator's fall-through \<open>next(error)\<close> leaves the route with the status error,
  which the error handler tries to send after the response: the update is applied and
  the client receives the 200, not a failure.
\<close>

theorem order_update_success_then_status_error:
  assumes "first_index (\<lambda>order. order_id order = route_param p) (db_orders s) = Some i"
    and "body_data body = Inr d" and "status_valid (get_prop d ''status'')"
    and "order_id_mismatch d (route_param p) = None" and "validate_order d = None"
  shows "run_route order_item_route \<lparr>r_method = PUT, r_path = p, r_body = body\<rparr> no_order_locals s =
           ([Sent (JsonResp 200 (js_object [(''data'', Some (order_json (updated_order (db_orders s ! i) d)))])),
             Done (Some status_error)],
            s\<lparr>db_orders := (db_orders s)[i := updated_order (db_orders s ! i) d]\<rparr>)"
  using assms by (simp add: order_item_route_PUT validate_order_def Let_def)

theorem order_update_success_then_status_error_witness:
  "fst (run_route order_item_route \<lparr>r_method = PUT, r_path = POrder ''o1'', r_body = JObj [(''data'', sample_update_data)]\<rparr>
      no_order_locals sample_orders_db) =
   [Sent (JsonResp 200 (js_object [(''data'', Some (order_json (updated_order sample_order sample_update_data)))])),
    Done (Some status_error)]"
  using order_update_success_then_status_error [of "POrder ''o1''" sample_orders_db 0
      "JObj [(''data'', sample_update_data)]" sample_update_data]
  by (simp add: body_data_def status_valid_def order_id_mismatch_def validate_order_def order_fields_error_def
      order_dishes_error_def require_truthy_def line_items_error_def bad_line_item_def)

text \<open>
  C18. The update requires a valid status: a body whose \<open>status\<close> is missing or not one
  of the four values (such as \<open>"cancelled"\<close>) is refused with the 400 status error, once,
  and nothing changes (the specification checks the status only when it is supplied).
\<close>

theorem order_update_requires_status:
  assumes "first_index (\<lambda>order. order_id order = route_param p) (db_orders s) = Some i"
    and "body_data body = Inr d" and "\<not> status_valid (get_prop d ''status'')"
  shows "run_route order_item_route \<lparr>r_method = PUT, r_path = p, r_body = body\<rparr> no_order_locals s =
           ([Done (Some status_error)], s)"
  using assms by (simp add: order_item_route_PUT)

theorem order_update_requires_status_witness:
  "run_route order_item_route
     \<lparr>r_method = PUT, r_path = POrder ''o1'', r_body = JObj [(''data'', JObj [(''deliverTo'', JStr ''Morty'')])]\<rparr>
     no_order_locals sample_orders_db = ([Done (Some status_error)], sample_orders_db)"
  using order_update_requires_status [of "POrder ''o1''" sample_orders_db 0
      "JObj [(''data'', JObj [(''deliverTo'', JStr ''Morty'')])]" "JObj [(''deliverTo'', JStr ''Morty'')]"]
  by (simp add: body_data_def status_valid_def)

text \<open>
  C10. Deleting a pending order responds 204 and removes it, after which
  \<open>GET /orders/:orderId\<close> answers 404 (identifiers unique); the validator's fall-through
  \<open>next(error)\<close> then leaves the route with the not-pending error after the 204.
\<close>

theorem order_delete_pending_then_gone:
  assumes "distinct (map order_id (db_orders s))" and "i < length (db_orders s)"
    and "order_status (db_orders s ! i) = Some (JStr ''pending'')"
  shows "fst (run_route order_item_route \<lparr>r_method = DELETE, r_path = POrder (order_id (db_orders s ! i)), r_body = b\<rparr>
                no_order_locals s) = [Sent (StatusResp 204), Done (Some not_pending_error)]
       \<and> run_route order_item_route \<lparr>r_method = GET, r_path = POrder (order_id (db_orders s ! i)), r_body = b'\<rparr>
           no_order_locals
           (snd (run_route order_item_route \<lparr>r_method = DELETE, r_path = POrder (order_id (db_orders s ! i)), r_body = b\<rparr>
                   no_order_locals s))
         = ([Done (Some (order_not_found (order_id (db_orders s ! i))))],
            s\<lparr>db_orders := take i (db_orders s) @ drop (Suc i) (db_orders s)\<rparr>)"
proof -
  have fi: "first_index (\<lambda>order. order_id order = order_id (db_orders s ! i)) (db_orders s) = Some i"
    using assms(1,2) by (rule first_index_distinct) simp
  have "order_id (db_orders s ! i) \<notin> order_id ` set (take i (db_orders s) @ drop (Suc i) (db_orders s))"
    using assms(1,2) by (rule distinct_map_remove_notin)
  then have "first_index (\<lambda>order. order_id order = order_id (db_orders s ! i))
               (take i (db_orders s) @ drop (Suc i) (db_orders s)) = None"
    unfolding first_index_None_iff by (metis image_eqI)
  with fi assms(3) show ?thesis
    by (simp add: order_item_route_DELETE order_item_route_GET)
qed

theorem order_delete_pending_then_gone_witness:
  "fst (run_route order_item_route \<lparr>r_method = DELETE, r_path = POrder ''o1'', r_body = JObj []\<rparr>
          no_order_locals sample_orders_db) = [Sent (StatusResp 204), Done (Some not_pending_error)]
   \<and> run_route order_item_route \<lparr>r_method = GET, r_path = POrder ''o1'', r_body = JObj []\<rparr> no_order_locals
       (snd (run_route order_item_route \<lparr>r_method = DELETE, r_path = POrder ''o1'', r_body = JObj []\<rparr>
               no_order_locals sample_orders_db))
     = ([Done (Some (order_not_found ''o1''))], sample_orders_db\<lparr>db_orders := []\<rparr>)"
  using order_delete_pending_then_gone [of sample_orders_db 0 "JObj []" "JObj []"] by simp

text \<open>
  C19. An order whose status is not \<open>pending\<close> cannot be deleted: the request fails with
  the 400 not-pending error, once, and nothing changes.
\<close>

theorem order_delete_not_pending:
  assumes "first_index (\<lambda>order. order_id order = route_param p) (db_orders s) = Some i"
    and "order_status (db_orders s ! i) \<noteq> Some (JStr ''pending'')"
  shows "run_route order_item_route \<lparr>r_method = DELETE, r_path = p, r_body = body\<rparr> no_order_locals s =
           ([Done (Some not_pending_error)], s)"
  using assms by (simp add: order_item_route_DELETE)

theorem order_delete_not_pending_witness:
  "run_route order_item_route \<lparr>r_method = DELETE, r_path = POrder ''o1'', r_body = JObj []\<rparr> no_order_locals
     (sample_orders_db\<lparr>db_orders := [sample_order\<lparr>order_status := Some (JStr ''preparing'')\<rparr>]\<rparr>)
   = ([Done (Some not_pending_error)],
      sample_orders_db\<lparr>db_orders := [sample_order\<lparr>order_status := Some (JStr ''preparing'')\<rparr>]\<rparr>)"
  using order_delete_not_pending [of "POrder ''o1''"
      "sample_orders_db\<lparr>db_orders := [sample_order\<lparr>order_status := Some (JStr ''preparing'')\<rparr>]\<rparr>" 0 "JObj []"]
  by simp

text \<open>
  C20. \<open>POST /orders\<close> takes the stored status from the top level of the request body
  (\<open>request.body.status\<close>, default \<open>"pending"\<close>), unvalidated, and ignores
  \<open>request.body.data.status\<close>: a created order has status \<open>create_status body\<close> whatever
  the data says.
\<close>

theorem order_create_status_source:
  assumes "body_data body = Inr d" and "validate_order d = None"
  shows "db_orders (snd (run_route order_root_route \<lparr>r_method = POST, r_path = p, r_body = body\<rparr> no_order_locals s))
           = db_orders s @ [order_of_data (fst (nextId s)) d (create_status body)]
       \<and> order_status (last (db_orders (snd (run_route order_root_route \<lparr>r_method = POST, r_path = p, r_body = body\<rparr>
                                                  no_order_locals s))))
           = create_status body"
  using assms by (simp add: order_root_route_POST validate_order_def nextId_def order_of_data_def Let_def)

theorem order_create_status_source_witness:
  "order_status (last (db_orders (snd (run_route order_root_route
      \<lparr>r_method = POST, r_path = POrders, r_body = JObj [(''data'', sample_update_data)]\<rparr> no_order_locals sample_orders_db))))
   = Some (JStr ''pending'')"
  using order_create_status_source [of "JObj [(''data'', sample_update_data)]" sample_update_data POrders sample_orders_db]
  by (simp add: body_data_def create_status_def validate_order_def order_fields_error_def order_of_data_def
      order_dishes_error_def require_truthy_def line_items_error_def bad_line_item_def)

text \<open>
  C21. When the fields are present, a creation whose \<open>dishes\<close> array has its first bad
  line item at position \<open>j\<close> (not \<open>null\<close>, quantity not a positive integer) fails once
  with the 400 naming that zero-based position, and nothing changes.
\<close>

theorem order_quantity_first_bad:
  assumes "body_data body = Inr d" and "order_fields_error d = None"
    and "get_prop d ''dishes'' = Some (JArr xs)" and "j < length xs"
    and "\<forall>k < j. \<not> bad_line_item (xs ! k)" and "xs ! j \<noteq> JNull"
    and "\<not> positive_integer (get_prop (xs ! j) ''quantity'')"
  shows "run_route order_root_route \<lparr>r_method = POST, r_path = p, r_body = body\<rparr> no_order_locals s =
           ([Done (Some (quantity_error j))], s)"
proof -
  have "first_index bad_line_item xs = Some j"
    using assms(4-7) by (simp add: first_index_Some_iff bad_line_item_def)
  with assms(3,4,6) have "order_dishes_error d = Some (quantity_error j)"
    by (auto simp: order_dishes_error_def line_items_error_def)
  with assms(1,2) show ?thesis by (simp add: order_root_route_POST)
qed

theorem order_quantity_first_bad_witness:
  "run_route order_root_route
     \<lparr>r_method = POST, r_path = POrders,
      r_body = JObj [(''data'', JObj [(''deliverTo'', JStr ''Rick''), (''mobileNumber'', JStr ''555''),
                                    (''dishes'', JArr [JObj [(''quantity'', JNum 2)], JObj [(''quantity'', JNum 0)]])])]\<rparr>
     no_order_locals sample_orders_db = ([Done (Some (quantity_error 1))], sample_orders_db)"
  using order_quantity_first_bad [of
      "JObj [(''data'', JObj [(''deliverTo'', JStr ''Rick''), (''mobileNumber'', JStr ''555''),
                             (''dishes'', JArr [JObj [(''quantity'', JNum 2)], JObj [(''quantity'', JNum 0)]])])]"
      "JObj [(''deliverTo'', JStr ''Rick''), (''mobileNumber'', JStr ''555''),
             (''dishes'', JArr [JObj [(''quantity'', JNum 2)], JObj [(''quantity'', JNum 0)]])]"
      "[JObj [(''quantity'', JNum 2)], JObj [(''quantity'', JNum 0)]]" 1 POrders sample_orders_db]
  by (simp add: body_data_def order_fields_error_def require_truthy_def bad_line_item_def less_Suc_eq)

text \<open>
  C22. A \<open>null\<close> line item, when it is the first bad one, makes the quantity check throw:
  the request fails with a \<open>TypeError\<close> (a 500 from the error handler) instead of the
  specified 400, and nothing changes.
\<close>

theorem order_null_line_item:
  assumes "body_data body = Inr d" and "order_fields_error d = None"
    and "get_prop d ''dishes'' = Some (JArr xs)" and "j < length xs"
    and "\<forall>k < j. \<not> bad_line_item (xs ! k)" and "xs ! j = JNull"
  shows "run_route order_root_route \<lparr>r_method = POST, r_path = p, r_body = body\<rparr> no_order_locals s =
           ([Done (Some (TypeError ''Cannot read properties of null (reading quantity)''))], s)"
proof -
  have "first_index bad_line_item xs = Some j"
    using assms(4-6) by (simp add: first_index_Some_iff bad_line_item_def)
  with assms(3,4,6) have "order_dishes_error d = Some (TypeError ''Cannot read properties of null (reading quantity)'')"
    by (auto simp: order_dishes_error_def line_items_error_def)
  with assms(1,2) show ?thesis by (simp add: order_root_route_POST)
qed

theorem order_null_line_item_witness:
  "run_route order_root_route
     \<lparr>r_method = POST, r_path = POrders,
      r_body = JObj [(''data'', JObj [(''deliverTo'', JStr ''Rick''), (''mobileNumber'', JStr ''555''),
                                    (''dishes'', JArr [JNull])])]\<rparr>
     no_order_locals sample_orders_db =
   ([Done (Some (TypeError ''Cannot read properties of null (reading quantity)''))], sample_orders_db)"
  using order_null_line_item [of
      "JObj [(''data'', JObj [(''deliverTo'', JStr ''Rick''), (''mobileNumber'', JStr ''555''),
                             (''dishes'', JArr [JNull])])]"
      "JObj [(''deliverTo'', JStr ''Rick''), (''mobileNumber'', JStr ''555''), (''dishes'', JArr [JNull])]"
      "[JNull]" 0 POrders sample_orders_db]
  by (simp add: body_data_def order_fields_error_def require_truthy_def)

text \<open>
  C15. Every request to \<open>/orders/:orderId\<close> (read, update, delete, or a refused method)
  keeps the order invariant: valid fields, non-empty line items with positive integer
  quantities, a status among the four values, unique and fresh identifiers.
\<close>

theorem order_item_route_preserves_inv:
  assumes "orders_inv s"
  shows "orders_inv (snd (run_route order_item_route r no_order_locals s))"
proof -
  obtain m p body where r: "r = \<lparr>r_method = m, r_path = p, r_body = body\<rparr>"
    by (cases r) simp
  show ?thesis unfolding r using assms by (rule order_item_route_inv)
qed

theorem order_item_route_preserves_inv_witness:
  "orders_inv sample_orders_db
   \<and> orders_inv (snd (run_route order_item_route
        \<lparr>r_method = PUT, r_path = POrder ''o1'', r_body = JObj [(''data'', sample_update_data)]\<rparr> no_order_locals sample_orders_db))"
proof -
  have h: "orders_inv sample_orders_db" by code_simp
  show ?thesis using h order_item_route_preserves_inv [OF h] by simp
qed

text \<open>
  C16. \<open>POST /orders\<close> keeps the order invariant when the status it takes from the top
  level of the body is absent or one of the four values.
\<close>

theorem order_create_preserves_inv:
  assumes "orders_inv s" and "status_valid (create_status (r_body r))"
  shows "orders_inv (snd (run_route order_root_route r no_order_locals s))"
proof -
  obtain m p body where r: "r = \<lparr>r_method = m, r_path = p, r_body = body\<rparr>"
    by (cases r) simp
  show ?thesis using assms unfolding r by (simp add: order_root_route_inv)
qed

theorem order_create_preserves_inv_witness:
  "orders_inv sample_orders_db \<and> status_valid (create_status (JObj [(''data'', sample_update_data)]))
   \<and> orders_inv (snd (run_route order_root_route
        \<lparr>r_method = POST, r_path = POrders, r_body = JObj [(''data'', sample_update_data)]\<rparr> no_order_locals sample_orders_db))"
proof -
  have h: "orders_inv sample_orders_db" by code_simp
  have v: "status_valid (create_status (JObj [(''data'', sample_update_data)]))"
    by (simp add: create_status_def status_valid_def)
  show ?thesis
    using h v order_create_preserves_inv [OF h, of "\<lparr>r_method = POST, r_path = POrders, r_body = JObj [(''data'', sample_update_data)]\<rparr>"]
    by simp
qed

text \<open>
  C8. The status invariant is not kept by the code: in every store, a creation whose
  \<open>data\<close> passes every check but whose top-level body carries a status outside the four
  values (e.g. \<open>"cancelled"\<close>) stores an order with that status, so the order invariant
  fails afterwards. Together with C16 the invariant after a valid creation holds exactly
  when the top-level status is absent or valid.
\<close>

theorem order_create_breaks_status_inv:
  assumes "body_data body = Inr d" and "validate_order d = None"
    and "\<not> status_valid (create_status body)"
  shows "\<not> orders_inv (snd (run_route order_root_route \<lparr>r_method = POST, r_path = p, r_body = body\<rparr>
                           no_order_locals s))"
  using assms
  by (simp add: order_root_route_POST validate_order_def orders_inv_def order_ok_def order_of_data_def Let_def)

theorem order_create_breaks_status_inv_witness:
  "body_data (JObj [(''data'', sample_update_data), (''status'', JStr ''cancelled'')]) = Inr sample_update_data
   \<and> validate_order sample_update_data = None
   \<and> \<not> status_valid (create_status (JObj [(''data'', sample_update_data), (''status'', JStr ''cancelled'')]))
   \<and> \<not> orders_inv (snd (run_route order_root_route
        \<lparr>r_method = POST, r_path = POrders,
         r_body = JObj [(''data'', sample_update_data), (''status'', JStr ''cancelled'')]\<rparr>
        no_order_locals sample_orders_db))"
proof -
  have b: "body_data (JObj [(''data'', sample_update_data), (''status'', JStr ''cancelled'')]) = Inr sample_update_data"
    by (simp add: body_data_def)
  have v: "validate_order sample_update_data = None"
    by (simp add: validate_order_def order_fields_error_def order_dishes_error_def require_truthy_def
        line_items_error_def bad_line_item_def)
  have c: "\<not> status_valid (create_status (JObj [(''data'', sample_update_data), (''status'', JStr ''cancelled'')]))"
    by (simp add: create_status_def status_valid_def)
  show ?thesis using b v c order_create_breaks_status_inv [OF b v c, of POrders sample_orders_db] by simp
qed

text \<open>
  C32. The \<open>for\<close> loop of \<open>eachDishMustHaveQuantityAboveZero\<close> on an array of line
  items is equivalent to the declarative check: it calls \<open>next()\<close> exactly when no
  line item is bad, and otherwise hands on the error for the first bad one (a
  \<open>TypeError\<close> for \<open>null\<close>, else the 400 naming its position).
\<close>

theorem quantity_check_first_bad:
  assumes "lo_dishes l = Some (JArr xs)"
  shows "eachDishMustHaveQuantityAboveZero r l s =
           (case line_items_error 0 xs of None \<Rightarrow> [CallNext] | Some e \<Rightarrow> [CallNextErr e])"
  using assms by (simp add: eachDishMustHaveQuantityAboveZero_def quantity_loop_first_bad)

theorem quantity_check_first_bad_witness:
  "eachDishMustHaveQuantityAboveZero \<lparr>r_method = POST, r_path = POrders, r_body = JObj []\<rparr>
     (no_order_locals\<lparr>lo_dishes := Some (JArr [JObj [(''quantity'', JNum 2)], JObj [(''quantity'', JNum (-3))]])\<rparr>)
     sample_orders_db
   = [CallNextErr (quantity_error 1)]"
  using quantity_check_first_bad [of "no_order_locals\<lparr>lo_dishes := Some (JArr [JObj [(''quantity'', JNum 2)], JObj [(''quantity'', JNum (-3))]])\<rparr>"
        "[JObj [(''quantity'', JNum 2)], JObj [(''quantity'', JNum (-3))]]"
        "\<lparr>r_method = POST, r_path = POrders, r_body = JObj []\<rparr>" sample_orders_db]
  by (simp add: line_items_error_def bad_line_item_def no_order_locals_def)


end
