(* ===== verification/App.thy ===== *)
theory App
  imports Dishes Orders
begin

text \<open>
  The application around the two routers (\<open>src/app.js\<close>, \<open>src/errors/notFound.js\<close>,
  \<open>src/errors/errorHandler.js\<close>, none among the sources; modelled from the
  specification): both routers mounted at \<open>/dishes\<close> and \<open>/orders\<close>, a not-found
  handler for requests no route answers, and the central error formatter that turns an
  error handed to \<open>next\<close> into the failure response. On top of it: the repository
  interface of the specification (insert, replace, remove) as effect relations each
  route refines, the reply a client receives, and reachability over sequences of
  requests with the invariants it keeps.
\<close>

section \<open>Dispatch to the routers\<close>

text \<open>
  \<open>app.use("/dishes", dishesRouter); app.use("/orders", ordersRouter); app.use(notFound)\<close>:
  a path no route matches leaves the routers at once, and the route exit \<open>Done None\<close>
  hands it to \<open>notFound\<close>. Each request starts with empty \<open>response.locals\<close>.
\<close>

definition app_request :: "request \<Rightarrow> db \<Rightarrow> event list \<times> db" where
  "app_request r s =
     (case r_path r of
        PDishes \<Rightarrow> run_route dish_root_route r no_dish_locals s
      | PDish _ \<Rightarrow> run_route dish_item_route r no_dish_locals s
      | POrders \<Rightarrow> run_route order_root_route r no_order_locals s
      | POrder _ \<Rightarrow> run_route order_item_route r no_order_locals s
      | POther _ \<Rightarrow> ([Done None], s))"

section \<open>What the client receives\<close>

text \<open>
  The first event of the trace decides the response: a response sent by a handler, or
  the error formatter's response for the error the route exits with (\<open>{status, message}\<close>,
  status 500 when the error has none, as for a thrown \<open>TypeError\<close>), or the not-found
  handler's 404 when the route exits without error. Later events do not reach the client:
  the first exit of a route goes on in the application's stack (to \<open>notFound\<close>, or with
  an error to the error handler), a later exit finds the application's shared cursor past
  those handlers and ends in Express's final handler, and by then a response was sent. The message is kept as its
  template parts.
\<close>

datatype reply = Reply response | ErrorReply nat "msg_part list" | NoReply

fun error_reply :: "js_error \<Rightarrow> reply" where
  "error_reply (HttpError st msg) = ErrorReply st msg"
| "error_reply (TypeError msg) = ErrorReply 500 [Lit msg]"

definition not_found_error :: "request \<Rightarrow> js_error" where
  "not_found_error r = HttpError 404 [Lit ''Path not found: '', Lit (original_url (r_path r))]"

fun client_reply :: "request \<Rightarrow> event list \<Rightarrow> reply" where
  "client_reply r [] = NoReply"
| "client_reply r (Sent resp # evs) = Reply resp"
| "client_reply r (Done (Some e) # evs) = error_reply e"
| "client_reply r (Done None # evs) = error_reply (not_found_error r)"

fun reply_status :: "reply \<Rightarrow> nat option" where
  "reply_status (Reply (JsonResp st v)) = Some st"
| "reply_status (Reply (StatusResp st)) = Some st"
| "reply_status (ErrorReply st msg) = Some st"
| "reply_status NoReply = None"

text \<open>The status codes the specification lists (section 6 and 7).\<close>

definition specified_statuses :: "nat list" where
  "specified_statuses = [200, 201, 204, 400, 404, 405, 500]"

fun is_sent :: "event \<Rightarrow> bool" where
  "is_sent (Sent resp) = True"
| "is_sent (Done e) = False"

text \<open>
  A well-formed trace: it is not empty (the client gets an answer), its first event gives
  a specified status, and no handler sends a second response after it.
\<close>

definition reply_specified :: "reply \<Rightarrow> bool" where
  "reply_specified rp \<longleftrightarrow> (case reply_status rp of None \<Rightarrow> False | Some st \<Rightarrow> st \<in> set specified_statuses)"

definition trace_ok :: "request \<Rightarrow> event list \<Rightarrow> bool" where
  "trace_ok r tr \<longleftrightarrow> reply_specified (client_reply r tr) \<and> \<not> list_ex is_sent (tl tr)"

definition app_reply :: "request \<Rightarrow> db \<Rightarrow> reply" where
  "app_reply r s = client_reply r (fst (app_request r s))"

text \<open>A sequence of requests served one after the other: the replies and the final store.\<close>

fun serve :: "request list \<Rightarrow> db \<Rightarrow> reply list \<times> db" where
  "serve [] s = ([], s)"
| "serve (r # rs) s =
     (let (tr, s') = app_request r s; (replies, s'') = serve rs s' in (client_reply r tr # replies, s''))"

section \<open>The repository interface\<close>

text \<open>
  The specification's repository (section 9): insert under a freshly minted identifier,
  replace a record keeping its identifier, remove a record. \<open>dish_effect\<close> and
  \<open>order_effect\<close> are the changes a dishes or an orders route may make to the store.
\<close>

inductive dish_effect :: "db \<Rightarrow> db \<Rightarrow> bool" where
  dish_same: "dish_effect s s"
| dish_insert: "dish_id x = digits_of (db_seed s) \<Longrightarrow>
    dish_effect s (s\<lparr>db_dishes := db_dishes s @ [x], db_seed := Suc (db_seed s)\<rparr>)"
| dish_replace: "i < length (db_dishes s) \<Longrightarrow> dish_id x = dish_id (db_dishes s ! i) \<Longrightarrow>
    dish_effect s (s\<lparr>db_dishes := (db_dishes s)[i := x]\<rparr>)"

inductive order_effect :: "db \<Rightarrow> db \<Rightarrow> bool" where
  order_same: "order_effect s s"
| order_insert: "order_id x = digits_of (db_seed s) \<Longrightarrow>
    order_effect s (s\<lparr>db_orders := db_orders s @ [x], db_seed := Suc (db_seed s)\<rparr>)"
| order_replace: "i < length (db_orders s) \<Longrightarrow> order_id x = order_id (db_orders s ! i) \<Longrightarrow>
    order_effect s (s\<lparr>db_orders := (db_orders s)[i := x]\<rparr>)"
| order_remove: "i < length (db_orders s) \<Longrightarrow>
    order_effect s (s\<lparr>db_orders := take i (db_orders s) @ drop (Suc i) (db_orders s)\<rparr>)"

inductive_cases dish_effectE: "dish_effect s s'"
inductive_cases order_effectE: "order_effect s s'"

section \<open>Reachable stores\<close>

text \<open>
  The stores reachable from \<open>s0\<close> by serving requests that satisfy \<open>P\<close>, one at a time
  (the application serves each request to completion before the next, since every handler
  is synchronous).
\<close>

inductive reachable :: "(request \<Rightarrow> bool) \<Rightarrow> db \<Rightarrow> db \<Rightarrow> bool" for P s0 where
  reachable_init: "reachable P s0 s0"
| reachable_step: "reachable P s0 s \<Longrightarrow> P r \<Longrightarrow> reachable P s0 (snd (app_request r s))"

text \<open>
  Requests that keep the order invariant: \<open>POST /orders\<close> takes the new order's status
  from the top level of the body, unvalidated, so it must be absent or valid there.
\<close>

definition create_status_ok :: "request \<Rightarrow> bool" where
  "create_status_ok r \<longleftrightarrow> r_path r \<noteq> POrders \<or> r_method r \<noteq> POST \<or> status_valid (create_status (r_body r))"

definition app_inv :: "db \<Rightarrow> bool" where
  "app_inv s \<longleftrightarrow> dishes_inv s \<and> orders_inv s"

text \<open>The methods each path answers (specification, section 6; the routers' \<open>.get\<close>, \<open>.put\<close>, ...).\<close>

fun allowed_methods :: "path \<Rightarrow> http_method list" where
  "allowed_methods PDishes = [POST, GET]"
| "allowed_methods (PDish dishId) = [GET, PUT]"
| "allowed_methods POrders = [POST, GET]"
| "allowed_methods (POrder orderId) = [GET, PUT, DELETE]"
| "allowed_methods (POther u) = []"

text \<open>The dish of the specification's end-to-end example (section 8).\<close>

abbreviation taco_data :: jval where
  "taco_data \<equiv>
     JObj [(''name'', JStr ''Taco''), (''description'', JStr ''Spicy''), (''price'', JNum 8),
           (''image_url'', JStr ''http://x'')]"

abbreviation taco_json :: "string \<Rightarrow> jval" where
  "taco_json dishId \<equiv>
     JObj [(''id'', JStr dishId), (''name'', JStr ''Taco''), (''description'', JStr ''Spicy''),
           (''price'', JNum 8), (''image_url'', JStr ''http://x'')]"

section \<open>The contract of the whole API\<close>

text \<open>
  What the specification promises for every path and method (sections 5 and 6), as the
  first event of the request and the store after it: the creation and update contracts of
  each resource (\<open>dish_create_spec\<close>, ..., with the code's status rules for orders),
  reads and lists, deletion of a pending order, 405 for a method the path does not
  answer, and the not-found handler for any other path.
\<close>

definition dish_read_spec :: "string \<Rightarrow> db \<Rightarrow> event \<times> db" where
  "dish_read_spec dishId s =
     (case first_index (\<lambda>dish. dish_id dish = dishId) (db_dishes s) of
        None \<Rightarrow> (Done (Some (dish_not_found dishId)), s)
      | Some i \<Rightarrow> (Sent (JsonResp 200 (js_object [(''data'', Some (dish_json (db_dishes s ! i)))])), s))"

definition order_read_spec :: "string \<Rightarrow> db \<Rightarrow> event \<times> db" where
  "order_read_spec orderId s =
     (case first_index (\<lambda>order. order_id order = orderId) (db_orders s) of
        None \<Rightarrow> (Done (Some (order_not_found orderId)), s)
      | Some i \<Rightarrow> (Sent (JsonResp 200 (js_object [(''data'', Some (order_json (db_orders s ! i)))])), s))"

definition order_delete_spec :: "string \<Rightarrow> db \<Rightarrow> event \<times> db" where
  "order_delete_spec orderId s =
     (case first_index (\<lambda>order. order_id order = orderId) (db_orders s) of
        None \<Rightarrow> (Done (Some (order_not_found orderId)), s)
      | Some i \<Rightarrow>
          if order_status (db_orders s ! i) = Some (JStr ''pending'')
          then (Sent (StatusResp 204), s\<lparr>db_orders := take i (db_orders s) @ drop (Suc i) (db_orders s)\<rparr>)
          else (Done (Some not_pending_error), s))"

definition list_spec :: "jval \<Rightarrow> db \<Rightarrow> event \<times> db" where
  "list_spec v s = (Sent (JsonResp 200 (js_object [(''data'', Some v)])), s)"

definition not_allowed_spec :: "request \<Rightarrow> db \<Rightarrow> event \<times> db" where
  "not_allowed_spec r s =
     (Done (Some (HttpError 405 [Lit (method_name (r_method r)), Lit '' not allowed for '',
                                Lit (original_url (r_path r))])), s)"

definition api_spec :: "request \<Rightarrow> db \<Rightarrow> event \<times> db" where
  "api_spec r s =
     (let m = dispatch_method (r_method r); body = r_body r in
      case r_path r of
        PDishes \<Rightarrow>
          if m = POST then dish_create_spec body s
          else if m = GET then list_spec (JArr (map dish_json (db_dishes s))) s
          else not_allowed_spec r s
      | PDish dishId \<Rightarrow>
          if m = GET then dish_read_spec dishId s
          else if m = PUT then dish_update_spec dishId body s
          else not_allowed_spec r s
      | POrders \<Rightarrow>
          if m = POST then order_create_spec body s
          else if m = GET then list_spec (JArr (map order_json (db_orders s))) s
          else not_allowed_spec r s
      | POrder orderId \<Rightarrow>
          if m = GET then order_read_spec orderId s
          else if m = PUT then order_update_spec orderId body s
          else if m = DELETE then order_delete_spec orderId s
          else not_allowed_spec r s
      | POther u \<Rightarrow> (Done None, s))"

section \<open>Each route uses the repository interface\<close>

lemma dish_root_route_effect:
  "dish_effect s (snd (run_route dish_root_route \<lparr>r_method = m, r_path = p, r_body = body\<rparr> no_dish_locals s))"
proof (cases "dispatch_method m = POST")
  case True
  then have m: "m = POST" by (cases m) simp_all
  show ?thesis
    by (auto simp: m dish_root_route_POST Let_def new_dish_def intro: dish_effect.intros
        split: sum.splits option.splits)
next
  case False
  then show ?thesis
    by (cases "dispatch_method m = GET") (simp_all add: dish_root_route_GET dish_root_route_other dish_same)
qed

lemma dish_item_route_effect:
  "dish_effect s (snd (run_route dish_item_route \<lparr>r_method = m, r_path = p, r_body = body\<rparr> no_dish_locals s))"
proof (cases "dispatch_method m = PUT")
  case True
  then have m: "m = PUT" by (cases m) simp_all
  show ?thesis
    by (auto simp: m dish_item_route_PUT Let_def intro: dish_effect.intros
        split: sum.splits option.splits)
next
  case False
  then show ?thesis
    by (cases "dispatch_method m = GET")
      (simp_all add: dish_item_route_GET dish_item_route_other dish_same Let_def split: option.splits)
qed


lemma order_root_route_effect:
  "order_effect s (snd (run_route order_root_route \<lparr>r_method = m, r_path = p, r_body = body\<rparr> no_order_locals s))"
proof (cases "dispatch_method m = POST")
  case True
  then have m: "m = POST" by (cases m) simp_all
  show ?thesis
    by (auto simp: m order_root_route_POST Let_def order_of_data_def intro: order_effect.intros
        split: sum.splits option.splits)
next
  case False
  then show ?thesis
    by (cases "dispatch_method m = GET") (simp_all add: order_root_route_GET order_root_route_other order_same)
qed

lemma order_item_route_effect:
  "order_effect s (snd (run_route order_item_route \<lparr>r_method = m, r_path = p, r_body = body\<rparr> no_order_locals s))"
proof (cases "dispatch_method m \<in> {PUT, DELETE}")
  case True
  then consider "m = PUT" | "m = DELETE" by (cases m) simp_all
  then show ?thesis
  proof cases
    case 1
    show ?thesis
      by (auto simp: 1 order_item_route_PUT Let_def intro: order_effect.intros
          split: sum.splits option.splits)
  next
    case 2
    show ?thesis
      by (auto simp: 2 order_item_route_DELETE Let_def intro: order_effect.intros split: option.splits)
  qed
next
  case False
  then show ?thesis
    by (cases "dispatch_method m = GET")
      (simp_all add: order_item_route_GET order_item_route_other order_same Let_def split: option.splits)
qed

section \<open>What the repository interface preserves\<close>

lemma dish_effect_orders: "dish_effect s s' \<Longrightarrow> db_orders s' = db_orders s"
  by (erule dish_effectE) simp_all

lemma order_effect_dishes: "order_effect s s' \<Longrightarrow> db_dishes s' = db_dishes s"
  by (erule order_effectE) simp_all

lemma dish_effect_seed: "dish_effect s s' \<Longrightarrow> db_seed s \<le> db_seed s'"
  by (erule dish_effectE) simp_all

lemma order_effect_seed: "order_effect s s' \<Longrightarrow> db_seed s \<le> db_seed s'"
  by (erule order_effectE) simp_all

lemma dish_effect_ids_ok:
  assumes "dish_effect s s'" and "ids_ok s"
  shows "ids_ok s'"
  using assms(1)
proof cases
  case (dish_insert x)
  have "digits_of (db_seed s) \<notin> dish_id ` set (db_dishes s)"
    using assms(2) ids_fresh_fresh [of "all_ids s" "db_seed s"] by (auto simp: ids_ok_def all_ids_def)
  with assms(2) dish_insert show ?thesis
    by (auto simp: ids_ok_def all_ids_def intro: ids_fresh_add)
next
  case (dish_replace i x)
  then have "map dish_id ((db_dishes s)[i := x]) = map dish_id (db_dishes s)"
    by (simp add: map_update list_update_same_conv)
  with assms(2) dish_replace show ?thesis by (simp add: ids_ok_def all_ids_def)
qed (use assms in simp)

lemma order_effect_ids_ok:
  assumes "order_effect s s'" and "ids_ok s"
  shows "ids_ok s'"
  using assms(1)
proof cases
  case (order_insert x)
  have "digits_of (db_seed s) \<notin> order_id ` set (db_orders s)"
    using assms(2) ids_fresh_fresh [of "all_ids s" "db_seed s"] by (auto simp: ids_ok_def all_ids_def)
  with assms(2) order_insert show ?thesis
    by (auto simp: ids_ok_def all_ids_def intro: ids_fresh_add)
next
  case (order_replace i x)
  then have "map order_id ((db_orders s)[i := x]) = map order_id (db_orders s)"
    by (simp add: map_update list_update_same_conv)
  with assms(2) order_replace show ?thesis by (simp add: ids_ok_def all_ids_def)
next
  case (order_remove i)
  with assms(2) show ?thesis by (simp add: ids_ok_remove_order)
qed (use assms in simp)


section \<open>Every error has a specified status\<close>

lemma reply_specified_simps [simp]:
  "reply_specified (ErrorReply st msg) \<longleftrightarrow> st \<in> set specified_statuses"
  "reply_specified (Reply (JsonResp st v)) \<longleftrightarrow> st \<in> set specified_statuses"
  "reply_specified (Reply (StatusResp st)) \<longleftrightarrow> st \<in> set specified_statuses"
  "\<not> reply_specified NoReply"
  by (simp_all add: reply_specified_def)

lemma body_data_error_specified: "body_data body = Inl e \<Longrightarrow> reply_specified (error_reply e)"
  by (cases "get_prop body ''data''" rule: destructure.cases) (auto simp: body_data_def specified_statuses_def)

lemma require_truthy_specified: "require_truthy d k msg = Some e \<Longrightarrow> reply_specified (error_reply e)"
  by (auto simp: require_truthy_def specified_statuses_def split: if_splits)

lemma validate_dish_specified: "validate_dish d = Some e \<Longrightarrow> reply_specified (error_reply e)"
  unfolding validate_dish_def by (drule first_failure_SomeD)
    (auto simp: specified_statuses_def require_truthy_specified split: if_splits)

lemma dish_id_mismatch_specified: "dish_id_mismatch d x = Some e \<Longrightarrow> reply_specified (error_reply e)"
  by (auto simp: dish_id_mismatch_def Let_def specified_statuses_def split: if_splits)

lemma order_id_mismatch_specified: "order_id_mismatch d x = Some e \<Longrightarrow> reply_specified (error_reply e)"
  by (auto simp: order_id_mismatch_def Let_def specified_statuses_def split: if_splits)

lemma order_fields_error_specified: "order_fields_error d = Some e \<Longrightarrow> reply_specified (error_reply e)"
  unfolding order_fields_error_def by (drule first_failure_SomeD) (auto simp: require_truthy_specified)

lemma order_dishes_error_specified: "order_dishes_error d = Some e \<Longrightarrow> reply_specified (error_reply e)"
  by (auto simp: order_dishes_error_def line_items_error_def nonempty_dishes_error_def quantity_error_def
      specified_statuses_def split: jval.splits option.splits if_splits)

lemmas error_specified = body_data_error_specified validate_dish_specified dish_id_mismatch_specified
  order_id_mismatch_specified order_fields_error_specified order_dishes_error_specified


section \<open>Every route answers once, with a specified status\<close>

lemmas trace_simps = trace_ok_def specified_statuses_def Let_def

lemma dish_root_route_trace:
  "trace_ok \<lparr>r_method = m, r_path = p, r_body = body\<rparr>
     (fst (run_route dish_root_route \<lparr>r_method = m, r_path = p, r_body = body\<rparr> no_dish_locals s))"
proof (cases "dispatch_method m = POST")
  case True
  then have m: "m = POST" by (cases m) simp_all
  show ?thesis
    by (auto simp: m dish_root_route_POST trace_simps error_specified split: sum.splits option.splits)
next
  case False
  then show ?thesis
    by (cases "dispatch_method m = GET")
      (simp_all add: dish_root_route_GET dish_root_route_other trace_simps)
qed

lemma dish_item_route_trace:
  "trace_ok \<lparr>r_method = m, r_path = p, r_body = body\<rparr>
     (fst (run_route dish_item_route \<lparr>r_method = m, r_path = p, r_body = body\<rparr> no_dish_locals s))"
proof (cases "dispatch_method m = PUT")
  case True
  then have m: "m = PUT" by (cases m) simp_all
  show ?thesis
    by (auto simp: m dish_item_route_PUT trace_simps error_specified dish_not_found_def
        split: sum.splits option.splits)
next
  case False
  then show ?thesis
    by (cases "dispatch_method m = GET")
      (simp_all add: dish_item_route_GET dish_item_route_other trace_simps
        dish_not_found_def split: option.splits)
qed

lemma order_root_route_trace:
  "trace_ok \<lparr>r_method = m, r_path = p, r_body = body\<rparr>
     (fst (run_route order_root_route \<lparr>r_method = m, r_path = p, r_body = body\<rparr> no_order_locals s))"
proof (cases "dispatch_method m = POST")
  case True
  then have m: "m = POST" by (cases m) simp_all
  show ?thesis
    by (auto simp: m order_root_route_POST trace_simps error_specified
        split: sum.splits option.splits)
next
  case False
  then show ?thesis
    by (cases "dispatch_method m = GET")
      (simp_all add: order_root_route_GET order_root_route_other trace_simps)
qed

lemma order_item_route_trace:
  "trace_ok \<lparr>r_method = m, r_path = p, r_body = body\<rparr>
     (fst (run_route order_item_route \<lparr>r_method = m, r_path = p, r_body = body\<rparr> no_order_locals s))"
proof (cases "dispatch_method m \<in> {PUT, DELETE}")
  case True
  then consider "m = PUT" | "m = DELETE" by (cases m) simp_all
  then show ?thesis
  proof cases
    case 1
    show ?thesis
      by (auto simp: 1 order_item_route_PUT trace_simps error_specified
          order_not_found_def status_error_def split: sum.splits option.splits)
  next
    case 2
    show ?thesis
      by (auto simp: 2 order_item_route_DELETE trace_simps order_not_found_def
          not_pending_error_def split: option.splits)
  qed
next
  case False
  then show ?thesis
    by (cases "dispatch_method m = GET")
      (simp_all add: order_item_route_GET order_item_route_other trace_simps
        order_not_found_def split: option.splits)
qed


section \<open>The route execution lemmas as one bundle\<close>

lemmas route_runs = dish_root_route_POST dish_root_route_GET dish_root_route_other dish_item_route_GET
  dish_item_route_PUT dish_item_route_other order_root_route_POST order_root_route_GET
  order_root_route_other order_item_route_GET order_item_route_PUT order_item_route_DELETE
  order_item_route_other

section \<open>The application level\<close>

lemma app_request_record:
  obtains m p body where "r = \<lparr>r_method = m, r_path = p, r_body = body\<rparr>"
  by (cases r) simp

lemma app_request_effect:
  "dish_effect s (snd (app_request r s)) \<and> r_path r \<in> {PDishes} \<union> range PDish
   \<or> order_effect s (snd (app_request r s))"
proof -
  obtain m p body where r: "r = \<lparr>r_method = m, r_path = p, r_body = body\<rparr>"
    by (rule app_request_record)
  show ?thesis
    by (cases p) (simp_all add: r app_request_def dish_root_route_effect dish_item_route_effect
        order_root_route_effect order_item_route_effect order_same)
qed

lemma app_request_ids_ok: "ids_ok s \<Longrightarrow> ids_ok (snd (app_request r s))"
  using app_request_effect [of s r] dish_effect_ids_ok order_effect_ids_ok by blast

lemma app_request_seed: "db_seed s \<le> db_seed (snd (app_request r s))"
  using app_request_effect [of s r] dish_effect_seed order_effect_seed by blast

lemma reachable_seed: "reachable P s0 s \<Longrightarrow> db_seed s0 \<le> db_seed s"
  by (induction rule: reachable.induct) (auto intro: order_trans app_request_seed)

lemma reachable_ids: "reachable P s0 s \<Longrightarrow> ids_ok s0 \<Longrightarrow> ids_ok s"
  by (induction rule: reachable.induct) (auto intro: app_request_ids_ok)

lemma reachable_trans: "reachable P s1 s \<Longrightarrow> reachable P s0 s1 \<Longrightarrow> reachable P s0 s"
  by (induction rule: reachable.induct) (auto intro: reachable.intros)

lemma dish_effect_app_inv:
  assumes "dish_effect s s'" and "dishes_inv s'" and "orders_inv s"
  shows "app_inv s'"
  using assms dish_effect_orders [OF assms(1)] by (simp add: app_inv_def orders_inv_def dishes_inv_def)

lemma order_effect_app_inv:
  assumes "order_effect s s'" and "orders_inv s'" and "dishes_inv s"
  shows "app_inv s'"
  using assms order_effect_dishes [OF assms(1)] by (simp add: app_inv_def orders_inv_def dishes_inv_def)

lemma app_request_inv:
  assumes "app_inv s" and "create_status_ok r"
  shows "app_inv (snd (app_request r s))"
proof -
  obtain m p body where r: "r = \<lparr>r_method = m, r_path = p, r_body = body\<rparr>"
    by (rule app_request_record)
  have d: "dishes_inv s" and o: "orders_inv s" using assms(1) by (simp_all add: app_inv_def)
  show ?thesis
  proof (cases p)
    case PDishes
    with dish_effect_app_inv [OF dish_root_route_effect dish_root_route_inv [OF d] o] show ?thesis
      by (simp add: r app_request_def)
  next
    case (PDish x)
    with dish_effect_app_inv [OF dish_item_route_effect dish_item_route_inv [OF d] o] show ?thesis
      by (simp add: r app_request_def)
  next
    case POrders
    have "orders_inv (snd (run_route order_root_route r no_order_locals s))"
    proof (cases "m = POST")
      case True
      with assms(2) POrders have "status_valid (create_status body)" by (simp add: r create_status_ok_def)
      with o show ?thesis by (simp add: r order_root_route_inv)
    next
      case False
      then have "snd (run_route order_root_route r no_order_locals s) = s"
        by (cases m) (simp_all add: r order_root_route_GET order_root_route_other)
      with o show ?thesis by simp
    qed
    with POrders order_effect_app_inv [OF order_root_route_effect _ d] show ?thesis
      by (simp add: r app_request_def)
  next
    case (POrder x)
    with order_effect_app_inv [OF order_item_route_effect order_item_route_inv [OF o] d] show ?thesis
      by (simp add: r app_request_def)
  next
    case (POther u)
    with assms(1) show ?thesis by (simp add: r app_request_def)
  qed
qed


section \<open>Properties of the application\<close>

text \<open>
  C7. Every request, on every path and with every method and body, gets an answer: the
  first event of its trace gives the client a response whose status is one the
  specification lists (200, 201, 204, 400, 404, 405, 500), and no handler sends a second
  response after it (the later events are only route exits).
\<close>

theorem app_request_answers_once: "trace_ok r (fst (app_request r s))"
proof -
  obtain m p body where r: "r = \<lparr>r_method = m, r_path = p, r_body = body\<rparr>"
    by (rule app_request_record)
  show ?thesis
  proof (cases p)
    case (POther u)
    then show ?thesis by (simp add: r app_request_def trace_ok_def not_found_error_def specified_statuses_def)
  qed (simp_all add: r app_request_def dish_root_route_trace dish_item_route_trace
      order_root_route_trace order_item_route_trace)
qed

text \<open>
  C13. Whatever requests are served, starting from a store whose identifiers are unique
  and fresh, every reachable store has unique dish identifiers and unique order
  identifiers.
\<close>

theorem reachable_ids_distinct:
  assumes "reachable P s0 s" and "ids_ok s0"
  shows "distinct (map dish_id (db_dishes s)) \<and> distinct (map order_id (db_orders s))"
  using reachable_ids [OF assms] by (simp add: ids_ok_def)

theorem reachable_ids_distinct_witness:
  "reachable (\<lambda>r. True) sample_orders_db (snd (app_request \<lparr>r_method = POST, r_path = PDishes, r_body = JObj [(''data'', taco_data)]\<rparr> sample_orders_db))
   \<and> distinct (map dish_id (db_dishes (snd (app_request \<lparr>r_method = POST, r_path = PDishes, r_body = JObj [(''data'', taco_data)]\<rparr> sample_orders_db))))
   \<and> distinct (map order_id (db_orders (snd (app_request \<lparr>r_method = POST, r_path = PDishes, r_body = JObj [(''data'', taco_data)]\<rparr> sample_orders_db))))"
proof -
  have h: "ids_ok sample_orders_db" by code_simp
  have r: "reachable (\<lambda>r. True) sample_orders_db (snd (app_request \<lparr>r_method = POST, r_path = PDishes, r_body = JObj [(''data'', taco_data)]\<rparr> sample_orders_db))"
    by (rule reachable_step [OF reachable_init]) simp
  show ?thesis using r reachable_ids_distinct [OF r h] by simp
qed

text \<open>
  C6. The data invariant of both resources (valid fields, non-empty line items with
  positive integer quantities, a valid status, unique and fresh identifiers) holds in
  every store reachable from one where it holds, by any sequence of requests whose
  \<open>POST /orders\<close> bodies carry no invalid top-level status.
\<close>

theorem reachable_app_inv:
  assumes "reachable create_status_ok s0 s" and "app_inv s0"
  shows "app_inv s"
  using assms by (induction rule: reachable.induct) (auto intro: app_request_inv)

theorem reachable_app_inv_witness:
  "reachable create_status_ok sample_orders_db (snd (app_request \<lparr>r_method = POST, r_path = POrders, r_body = JObj [(''data'', sample_update_data)]\<rparr> sample_orders_db))
   \<and> app_inv sample_orders_db
   \<and> app_inv (snd (app_request \<lparr>r_method = POST, r_path = POrders, r_body = JObj [(''data'', sample_update_data)]\<rparr> sample_orders_db))"
proof -
  have h: "app_inv sample_orders_db" by code_simp
  have c: "create_status_ok \<lparr>r_method = POST, r_path = POrders, r_body = JObj [(''data'', sample_update_data)]\<rparr>"
    by (simp add: create_status_ok_def create_status_def status_valid_def)
  have r: "reachable create_status_ok sample_orders_db (snd (app_request \<lparr>r_method = POST, r_path = POrders, r_body = JObj [(''data'', sample_update_data)]\<rparr> sample_orders_db))"
    using reachable_step [of create_status_ok sample_orders_db sample_orders_db, OF reachable_init c] by simp
  show ?thesis using r h reachable_app_inv [OF r h] by simp
qed

text \<open>
  C12. An identifier is never handed out twice, even after its record is deleted: the
  identifier the next creation would mint, in any store reached later, is not among the
  identifiers of any store passed through before.
\<close>

theorem ids_never_reissued:
  assumes "reachable P s0 s1" and "reachable P s1 s" and "ids_ok s0"
  shows "digits_of (db_seed s) \<notin> set (all_ids s1)"
proof
  assume mem: "digits_of (db_seed s) \<in> set (all_ids s1)"
  have "ids_fresh (all_ids s1) (db_seed s1)"
    using reachable_ids [OF assms(1,3)] by (simp add: ids_ok_def)
  with mem have "db_seed s < db_seed s1" by (auto simp: ids_fresh_def)
  with reachable_seed [OF assms(2)] show False by simp
qed

theorem ids_never_reissued_witness:
  "reachable (\<lambda>r. True) sample_orders_db (snd (app_request \<lparr>r_method = POST, r_path = POrders, r_body = JObj [(''data'', sample_update_data)]\<rparr> sample_orders_db))
   \<and> reachable (\<lambda>r. True) (snd (app_request \<lparr>r_method = POST, r_path = POrders, r_body = JObj [(''data'', sample_update_data)]\<rparr> sample_orders_db))
       (snd (app_request \<lparr>r_method = DELETE, r_path = POrder ''0'', r_body = JObj []\<rparr> (snd (app_request \<lparr>r_method = POST, r_path = POrders, r_body = JObj [(''data'', sample_update_data)]\<rparr> sample_orders_db))))
   \<and> digits_of (db_seed (snd (app_request \<lparr>r_method = DELETE, r_path = POrder ''0'', r_body = JObj []\<rparr>
        (snd (app_request \<lparr>r_method = POST, r_path = POrders, r_body = JObj [(''data'', sample_update_data)]\<rparr> sample_orders_db)))))
     \<notin> set (all_ids (snd (app_request \<lparr>r_method = POST, r_path = POrders, r_body = JObj [(''data'', sample_update_data)]\<rparr> sample_orders_db)))"
proof -
  have h: "ids_ok sample_orders_db" by code_simp
  have r1: "reachable (\<lambda>r. True) sample_orders_db (snd (app_request \<lparr>r_method = POST, r_path = POrders, r_body = JObj [(''data'', sample_update_data)]\<rparr> sample_orders_db))"
    by (rule reachable_step [OF reachable_init]) simp
  have r2: "reachable (\<lambda>r. True) (snd (app_request \<lparr>r_method = POST, r_path = POrders, r_body = JObj [(''data'', sample_update_data)]\<rparr> sample_orders_db))
       (snd (app_request \<lparr>r_method = DELETE, r_path = POrder ''0'', r_body = JObj []\<rparr> (snd (app_request \<lparr>r_method = POST, r_path = POrders, r_body = JObj [(''data'', sample_update_data)]\<rparr> sample_orders_db))))"
    by (rule reachable_step [OF reachable_init]) simp
  show ?thesis using r1 r2 ids_never_reissued [OF r1 r2 h] by simp
qed


text \<open>
  C27. The specification's end-to-end example (section 8): \<open>POST /dishes\<close> with the Taco
  dish answers 201 with the dish under a newly minted identifier, and a following
  \<open>GET /dishes/<new>\<close> answers 200 with the identical object, in any store whose
  identifiers are unique and fresh.
\<close>

theorem dish_create_then_read:
  assumes "ids_ok s"
  shows "fst (serve [\<lparr>r_method = POST, r_path = PDishes, r_body = JObj [(''data'', taco_data)]\<rparr>,
                     \<lparr>r_method = GET, r_path = PDish (digits_of (db_seed s)), r_body = JObj []\<rparr>] s)
         = [Reply (JsonResp 201 (JObj [(''data'', taco_json (digits_of (db_seed s)))])),
            Reply (JsonResp 200 (JObj [(''data'', taco_json (digits_of (db_seed s)))]))]"
proof -
  let ?x = "new_dish (digits_of (db_seed s)) taco_data"
  have "digits_of (db_seed s) \<notin> dish_id ` set (db_dishes s)"
    using assms ids_fresh_fresh [of "all_ids s" "db_seed s"] by (auto simp: ids_ok_def all_ids_def)
  then have "\<forall>j < length (db_dishes s). dish_id (db_dishes s ! j) \<noteq> digits_of (db_seed s)"
    by (metis image_eqI nth_mem)
  then have fi: "first_index (\<lambda>dish. dish_id dish = digits_of (db_seed s)) (db_dishes s @ [?x])
                 = Some (length (db_dishes s))"
    by (simp add: first_index_Some_iff nth_append new_dish_def)
  have v: "validate_dish taco_data = None"
    by (simp add: validate_dish_def require_truthy_def)
  show ?thesis
    using fi v
    by (simp add: app_request_def dish_root_route_POST dish_item_route_GET body_data_def Let_def
        dish_json_def new_dish_def)
qed

theorem dish_create_then_read_witness:
  "fst (serve [\<lparr>r_method = POST, r_path = PDishes, r_body = JObj [(''data'', taco_data)]\<rparr>, \<lparr>r_method = GET, r_path = PDish ''0'', r_body = JObj []\<rparr>]
          sample_orders_db)
   = [Reply (JsonResp 201 (JObj [(''data'', taco_json ''0'')])), Reply (JsonResp 200 (JObj [(''data'', taco_json ''0'')]))]"
proof -
  have h: "ids_ok sample_orders_db" by code_simp
  have d: "digits_of (db_seed sample_orders_db) = ''0''" by code_simp
  show ?thesis using dish_create_then_read [OF h] unfolding d .
qed

text \<open>
  C31. On each of the four paths, a method the router does not list (\<open>HEAD\<close> counts as
  \<open>GET\<close>) reaches \<open>methodNotAllowed\<close>: the request fails once with the 405 naming the
  method and the URL, and the store is unchanged.
\<close>

theorem app_method_not_allowed:
  assumes "allowed_methods p \<noteq> []" and "dispatch_method m \<notin> set (allowed_methods p)"
  shows "app_request \<lparr>r_method = m, r_path = p, r_body = body\<rparr> s =
           ([Done (Some (HttpError 405 [Lit (method_name m), Lit '' not allowed for '', Lit (original_url p)]))], s)
       \<and> app_reply \<lparr>r_method = m, r_path = p, r_body = body\<rparr> s =
           ErrorReply 405 [Lit (method_name m), Lit '' not allowed for '', Lit (original_url p)]"
  using assms
  by (cases p) (simp_all add: app_reply_def app_request_def dish_root_route_other dish_item_route_other
      order_root_route_other order_item_route_other insert_commute)

theorem app_method_not_allowed_witness:
  "allowed_methods (POrder ''o1'') \<noteq> [] \<and> dispatch_method PATCH \<notin> set (allowed_methods (POrder ''o1''))
   \<and> app_reply \<lparr>r_method = PATCH, r_path = POrder ''o1'', r_body = JObj []\<rparr> sample_orders_db =
       ErrorReply 405 [Lit ''PATCH'', Lit '' not allowed for '', Lit ''/orders/o1'']"
  using app_method_not_allowed [of "POrder ''o1''" PATCH "JObj []" sample_orders_db]
  by simp


text \<open>
  C28. A successful order update is reflected on a subsequent \<open>GET\<close> (specification,
  section 8): the client receives the 200 with the updated order, and reading the order
  back returns the same object, although the route also exits with the status error after
  the update's response.
\<close>

theorem order_update_then_read:
  assumes "first_index (\<lambda>order. order_id order = orderId) (db_orders s) = Some i"
    and "body_data body = Inr d" and "status_valid (get_prop d ''status'')"
    and "order_id_mismatch d orderId = None" and "validate_order d = None"
  shows "fst (serve [\<lparr>r_method = PUT, r_path = POrder orderId, r_body = body\<rparr>, \<lparr>r_method = GET, r_path = POrder orderId, r_body = body'\<rparr>] s)
         = [Reply (JsonResp 200 (js_object [(''data'', Some (order_json (updated_order (db_orders s ! i) d)))])),
            Reply (JsonResp 200 (js_object [(''data'', Some (order_json (updated_order (db_orders s ! i) d)))]))]"
proof -
  have i: "i < length (db_orders s)" using assms(1) by blast
  have fi: "first_index (\<lambda>order. order_id order = orderId)
              ((db_orders s)[i := updated_order (db_orders s ! i) d]) = Some i"
    using assms(1) by (rule first_index_update_same) simp
  show ?thesis
    using assms i fi
    by (simp add: app_request_def order_item_route_PUT order_item_route_GET validate_order_def Let_def)
qed

theorem order_update_then_read_witness:
  "fst (serve [\<lparr>r_method = PUT, r_path = POrder ''o1'', r_body = JObj [(''data'', sample_update_data)]\<rparr>,
               \<lparr>r_method = GET, r_path = POrder ''o1'', r_body = JObj []\<rparr>] sample_orders_db)
   = [Reply (JsonResp 200 (js_object [(''data'', Some (order_json (updated_order sample_order sample_update_data)))])),
      Reply (JsonResp 200 (js_object [(''data'', Some (order_json (updated_order sample_order sample_update_data)))]))]"
  using order_update_then_read [of "''o1''" sample_orders_db 0 "JObj [(''data'', sample_update_data)]"
      sample_update_data "JObj []"]
  by (simp add: body_data_def status_valid_def order_id_mismatch_def validate_order_def order_fields_error_def
      order_dishes_error_def require_truthy_def line_items_error_def bad_line_item_def)


text \<open>
  C1. The whole API refines its contract: for every request and store, the first event
  of the request (what the client receives) and the store it leaves are exactly those of
  \<open>api_spec\<close>.
\<close>

theorem api_refines_spec: "(hd (fst (app_request r s)), snd (app_request r s)) = api_spec r s"
proof -
  obtain m p body where r: "r = \<lparr>r_method = m, r_path = p, r_body = body\<rparr>"
    by (rule app_request_record)
  show ?thesis
    by (cases p; cases m)
      (simp_all add: r app_request_def api_spec_def route_runs dish_create_spec_def dish_update_spec_def order_create_spec_def order_update_spec_def
        dish_read_spec_def order_read_spec_def order_delete_spec_def list_spec_def not_allowed_spec_def
        validate_order_def Let_def split: sum.splits option.splits)
qed


text \<open>
  C30. Reading never writes: a \<open>GET\<close> (or \<open>HEAD\<close>) request, on any path and with any body,
  leaves the store unchanged.
\<close>

theorem app_get_read_only:
  assumes "dispatch_method (r_method r) = GET"
  shows "snd (app_request r s) = s"
proof -
  obtain m p body where r: "r = \<lparr>r_method = m, r_path = p, r_body = body\<rparr>"
    by (rule app_request_record)
  show ?thesis
    using assms by (cases p) (simp_all add: r app_request_def route_runs Let_def split: option.splits)
qed

theorem app_get_read_only_witness:
  "dispatch_method (r_method \<lparr>r_method = HEAD, r_path = POrder ''o1'', r_body = JObj []\<rparr>) = GET
   \<and> snd (app_request \<lparr>r_method = HEAD, r_path = POrder ''o1'', r_body = JObj []\<rparr> sample_orders_db)
     = sample_orders_db"
  using app_get_read_only [of "\<lparr>r_method = HEAD, r_path = POrder ''o1'', r_body = JObj []\<rparr>" sample_orders_db]
  by simp

text \<open>
  C11. No partial application (specification, section 7): a request whose answer is a
  failure (its first event is an error handed to the error handler or a route exit, not
  a response) leaves the store exactly as it was.
\<close>

theorem app_failure_no_effect:
  assumes "\<not> is_sent (hd (fst (app_request r s)))"
  shows "snd (app_request r s) = s"
proof -
  obtain m p body where r: "r = \<lparr>r_method = m, r_path = p, r_body = body\<rparr>"
    by (rule app_request_record)
  show ?thesis
    using assms
    by (cases p; cases m)
      (simp_all add: r app_request_def route_runs validate_order_def Let_def
        split: sum.splits option.splits if_splits)
qed

theorem app_failure_no_effect_witness:
  "\<not> is_sent (hd (fst (app_request \<lparr>r_method = POST, r_path = POrders, r_body = JObj [(''data'', JObj [])]\<rparr>
        sample_orders_db)))
   \<and> snd (app_request \<lparr>r_method = POST, r_path = POrders, r_body = JObj [(''data'', JObj [])]\<rparr>
        sample_orders_db) = sample_orders_db"
proof -
  have h: "\<not> is_sent (hd (fst (app_request \<lparr>r_method = POST, r_path = POrders, r_body = JObj [(''data'', JObj [])]\<rparr>
        sample_orders_db)))"
    by (simp add: app_request_def order_root_route_POST body_data_def order_fields_error_def require_truthy_def)
  show ?thesis using h app_failure_no_effect [OF h] by simp
qed

end
