(* ===== verification/Spec2Isabelle.thy ===== *)
theory Spec2Isabelle
  imports App
begin

text \<open>
  \<^bold>\<open>A verification model of the GrubDash back end (dishes and orders API).\<close>

  The program is an Express application with two resources. Each controller
  (\<open>src/dishes/dishes.controller.js\<close>, \<open>src/orders/orders.controller.js\<close>) exports, per
  operation, an array of middleware: validators that check the request and stage values in
  \<open>response.locals\<close>, and a final handler that reads or mutates the module-level
  arrays and responds. The routers (\<open>src/orders/orders.router.js\<close>, and the dishes
  router, not among the sources) flatten those arrays into one Express route stack per
  path, ending with \<open>methodNotAllowed\<close>.

  \<^bold>\<open>Theories.\<close>
  \<^item> \<open>Prelude\<close>: list operations behind \<open>find\<close>, \<open>findIndex\<close>, \<open>splice\<close>; the
    specification's validation pipeline (\<open>first_failure\<close>); shared lemmas.
  \<^item> \<open>JsValue\<close>: JSON values as the controllers see them (\<open>undefined\<close> as \<open>None\<close>),
    truthiness, property access, destructuring that throws, \<open>Number.isInteger\<close>, the
    error objects passed to \<open>next\<close>.
  \<^item> \<open>Express\<close>: \<open>Route.prototype.dispatch\<close>: a route stack of method-tagged layers,
    a handler as the list of its effects (\<open>response.locals\<close> writes, store writes,
    responses, calls of \<open>next\<close>), and the dispatcher \<open>next_layer\<close>/\<open>run_actions\<close>
    that runs nested \<open>next\<close> calls with a shared cursor and records the trace of
    responses and route exits. The fuel is one unit per remaining layer, which
    \<open>next_layer_run_actions_enough\<close> shows always suffices; \<open>dispatch_next\<close> and
    \<open>dispatch_actions\<close> are the fuel-free forms, with one execution equation per case.
  \<^item> \<open>Store\<close>: the dish and order records, the store (both arrays and the identifier
    generator's counter), the generator \<open>nextId\<close> (modelled from the specification as a
    counter printed in decimal), and the identifier invariant \<open>ids_ok\<close>.
  \<^item> \<open>Dishes\<close>: every validator and handler of the dishes controller, the exported stacks
    and both dish routes; the specification of creation and update as a validation
    pipeline (\<open>dish_create_spec\<close>, \<open>dish_update_spec\<close>); one execution lemma per
    route and method.
  \<^item> \<open>Orders\<close>: every validator and handler of the orders controller (including the
    per-line \<open>for\<close> loop as \<open>quantity_loop\<close> and \<open>destroy\<close> via \<open>findIndex\<close> and
    \<open>splice\<close>), the exported stacks and both routes of \<open>orders.router.js\<close>; the
    specification of creation and update (\<open>order_create_spec\<close>, \<open>order_update_spec\<close>)
    and the order invariant \<open>orders_inv\<close>.
  \<^item> \<open>App\<close>: the application around the routers (\<open>app.js\<close>, the not-found handler and
    the error formatter, none among the sources; modelled from the specification):
    \<open>app_request\<close> sends a request to its route, \<open>client_reply\<close> is what the client
    receives (the first event of the trace), \<open>serve\<close> runs a sequence of requests. The
    specification's repository interface (insert under a fresh identifier, replace keeping
    the identifier, remove) is the pair of relations \<open>dish_effect\<close>/\<open>order_effect\<close>,
    which every route refines (\<open>dish_root_route_effect\<close>, ...); \<open>reachable\<close> is the
    step relation of the application over requests, with invariants by rule induction.

  \<^bold>\<open>What the lemmas show.\<close> Each route's whole trace is computed symbolically for every
  request body and store (\<open>dish_root_route_POST\<close>, \<open>order_item_route_PUT\<close>, ...). From
  these: refinement of the specification's contract (first event and final store) for
  dish and order creation and update; reads returning the stored record; the data
  invariants (valid fields, unique and fresh identifiers) kept by every request, except
  for order creation, whose status is taken unvalidated from the top level of the body
  (\<open>order_create_breaks_status_inv\<close>: any creation with valid data and an invalid
  top-level status breaks it); and the
  places where the code departs from its specification: validators that call
  \<open>next(error)\<close> and then \<open>next()\<close> leave the route twice; \<open>statusMustExistAndBeValid\<close>
  runs the update (which responds 200) and then still reports a status error;
  \<open>orderStatusIsPending\<close> deletes a pending order (204) and then reports it not pending;
  the update requires a status the specification calls optional; a \<open>null\<close> line item
  makes the quantity loop throw.

  At the application level: the whole API refines its contract \<open>api_spec\<close>, for every
  path, method, body and store (\<open>api_refines_spec\<close>); reads never write, and a failed
  request changes nothing (\<open>app_get_read_only\<close>, \<open>app_failure_no_effect\<close>); every request gets exactly one response with a status the
  specification lists (\<open>app_request_answers_once\<close>); identifiers stay unique in every
  reachable store and are never reissued after a delete (\<open>reachable_ids_distinct\<close>,
  \<open>ids_never_reissued\<close>); the data invariant holds in every store reachable by requests
  without an invalid top-level order status (\<open>reachable_app_inv\<close>); the specification's
  end-to-end example holds in every store (\<open>dish_create_then_read\<close>), and an order
  update is read back by a following \<open>GET\<close> (\<open>order_update_then_read\<close>). The quantity loop
  is equivalent to its declarative first-bad-item reading (\<open>quantity_check_first_bad\<close>).

  \<^bold>\<open>Fuel.\<close> Dispatch is the only loop whose bound is not structural. One unit of fuel per
  layer not yet passed is enough, since every call of \<open>next\<close> moves the shared cursor
  forward (\<open>next_layer_run_actions_enough\<close>), and more fuel never changes the result
  (\<open>next_layer_run_actions_mono\<close>); hence every dispatch returns (\<open>dispatch_next_defined\<close>).

  \<^bold>\<open>Interleaving.\<close> Every handler is synchronous, so Node runs each request to completion
  before the next: a run of the application is a sequence of requests, each a single
  transition of \<open>reachable\<close>. Nothing is lost by not modelling interleavings.

  \<^bold>\<open>Not modelled.\<close> HTTP parsing and \<open>express.json()\<close> (the body arrives as a parsed
  value), the data files' initial contents (any store satisfying the invariant), the
  \<open>setImmediate\<close> deferral Express applies after 100 synchronous \<open>next\<close> calls (no stack
  here has more than 12 layers), process start-up, and the HTTP layer's handling of
  \<open>HEAD\<close> (it runs the \<open>GET\<close> handlers, as modelled, but sends no body). JSON numbers are exact rationals: the
  rounding of JavaScript doubles (beyond \<open>2^53\<close>, or of long decimal fractions) is not
  modelled, so \<open>Number.isInteger\<close> is exact here. The error formatter's message is kept
  as its template parts (the string conversion of \<open>${...}\<close> is not modelled), and a route
  exit after the response was sent is recorded in the trace but not modelled further:
  the first exit of a route reaches the error handler (or \<open>notFound\<close>), a later one
  Express's final handler, and the client has its response by then.
\<close>

end
